theory Spec2Isabelle
  imports Complex_Main
begin

section \<open>Common data\<close>

text \<open>
  The program is a Python training script (\<^verbatim>\<open>learn_center_loss.py\<close>) built on
  Keras and NumPy. Python exceptions are values of the type \<open>error\<close>; a computation that
  may raise returns \<open>error + 'a\<close> with \<open>Inl\<close> for the exception. Floating-point
  numbers are idealised as \<open>real\<close>; Python integers are \<open>int\<close>.
\<close>

datatype error =
    ValueError
  | IndexError
  | TypeError
  | ZeroDivisionError
  | AttributeError
  | IOError string

text \<open>
  Python's truth test on an optional command-line string (\<^verbatim>\<open>if args.centroids:\<close>):
  \<^verbatim>\<open>None\<close> and the empty string are false.
\<close>

definition truthy :: "string option \<Rightarrow> bool" where
  "truthy a = (case a of None \<Rightarrow> False | Some s \<Rightarrow> s \<noteq> [])"

section \<open>Batch transform\<close>

text \<open>
  \<^verbatim>\<open>keras.utils.to_categorical(y, num_classes)\<close> for a one-dimensional label array,
  as the Keras 2 utility computes it:
  \<^verbatim>\<open>
    y = np.array(y, dtype='int').ravel()
    if not num_classes: num_classes = np.max(y) + 1
    n = y.shape[0]
    categorical = np.zeros((n, num_classes))
    categorical[np.arange(n), y] = 1
  \<close>
  A class count of 0 is falsy, so it is replaced by \<open>max y + 1\<close> (and \<^verbatim>\<open>np.max\<close> of an
  empty array raises ValueError); \<^verbatim>\<open>np.zeros\<close> raises ValueError on a negative
  dimension; NumPy's index assignment raises IndexError outside \<open>[-n, n)\<close> and counts a
  negative index from the end.
\<close>

definition np_max :: "int list \<Rightarrow> int" where
  "np_max y = fold max (tl y) (hd y)"

definition np_index :: "int \<Rightarrow> int \<Rightarrow> nat" where
  "np_index n l = nat (if l < 0 then l + n else l)"

definition to_categorical :: "int list \<Rightarrow> int \<Rightarrow> error + real list list" where
  "to_categorical y num_classes =
     (if num_classes = 0 \<and> y = [] then Inl ValueError
      else
        let n = (if num_classes = 0 then np_max y + 1 else num_classes) in
        if n < 0 then Inl ValueError
        else if list_ex (\<lambda>l. n \<le> l \<or> l < - n) y then Inl IndexError
        else Inr (map (\<lambda>l. (replicate (nat n) 0)[np_index n l := 1]) y))"

text \<open>
  \<^verbatim>\<open>
  def transform_inputs(X, y, num_classes):
      return [X, y], [keras.utils.to_categorical(y, num_classes), np.zeros(len(X))]
  \<close>
\<close>

definition transform_inputs ::
  "'a list \<Rightarrow> int list \<Rightarrow> int \<Rightarrow> error + (('a list \<times> int list) \<times> (real list list \<times> real list))" where
  "transform_inputs X y num_classes =
     (case to_categorical y num_classes of
        Inl e \<Rightarrow> Inl e
      | Inr categorical \<Rightarrow> Inr ((X, y), (categorical, replicate (length X) 0)))"

text \<open>The one-hot vector of the specification: 1 at the label's position, 0 elsewhere.\<close>

definition one_hot :: "int \<Rightarrow> int \<Rightarrow> real list" where
  "one_hot l num_classes = map (\<lambda>j. if int j = l then 1 else 0) [0..<nat num_classes]"


section \<open>Command-line arguments\<close>

text \<open>
  The fields of \<^verbatim>\<open>args\<close> that the modelled parts of the script read, under the names
  \<^verbatim>\<open>argparse\<close> gives them. An option of type \<^verbatim>\<open>str\<close> with default \<^verbatim>\<open>None\<close> is a
  \<open>string option\<close>.
\<close>

record args =
  class_list :: "string option"
  embed_dim :: int
  centroids :: "string option"
  max_decay :: real
  epochs :: "int option"
  batch_size :: int
  finetune :: "string option"
  finetune_init :: int
  sgd_lr :: real
  model_dump :: "string option"
  weight_dump :: "string option"
  feature_dump :: "string option"

section \<open>Centroid file and class list\<close>

subsection \<open>String operations\<close>

text \<open>
  \<^verbatim>\<open>str.strip()\<close> and \<^verbatim>\<open>str.split()\<close> without arguments work on whitespace. Which
  characters count as whitespace is the interpreter's business (Python 2 byte strings and
  Python 3 text differ on a few control characters), so the predicate \<open>sp\<close> is a parameter;
  \<open>ascii_space\<close> is the instance common to both.
\<close>

definition ascii_space :: "char \<Rightarrow> bool" where
  "ascii_space c = (c \<in> set [CHR '' '', CHR 0x09, CHR 0x0A, CHR 0x0B, CHR 0x0C, CHR 0x0D])"

definition str_strip :: "(char \<Rightarrow> bool) \<Rightarrow> string \<Rightarrow> string" where
  "str_strip sp s = rev (dropWhile sp (rev (dropWhile sp s)))"

text \<open>
  \<^verbatim>\<open>s.split()\<close>: the maximal runs of non-whitespace characters, in order. \<open>cur\<close> is
  the run being read.
\<close>

fun split_acc :: "(char \<Rightarrow> bool) \<Rightarrow> string \<Rightarrow> string \<Rightarrow> string list" where
  "split_acc sp cur [] = (if cur = [] then [] else [cur])"
| "split_acc sp cur (c # cs) =
     (if sp c then (if cur = [] then split_acc sp [] cs else cur # split_acc sp [] cs)
      else split_acc sp (cur @ [c]) cs)"

definition str_split :: "(char \<Rightarrow> bool) \<Rightarrow> string \<Rightarrow> string list" where
  "str_split sp s = split_acc sp [] s"

text \<open>
  \<^verbatim>\<open>int(lbl)\<close> on a string either returns an integer or raises ValueError; the parser is
  a parameter \<open>int_of\<close> (\<open>None\<close> for ValueError). \<open>ascii_int\<close> is an instance: decimal
  digits with an optional sign.
\<close>

definition digit_of :: "char \<Rightarrow> int option" where
  "digit_of c =
     (let n = (of_char c :: nat) in if 48 \<le> n \<and> n \<le> 57 then Some (int n - 48) else None)"

fun digits_of :: "int \<Rightarrow> string \<Rightarrow> int option" where
  "digits_of acc [] = Some acc"
| "digits_of acc (c # cs) =
     (case digit_of c of None \<Rightarrow> None | Some d \<Rightarrow> digits_of (10 * acc + d) cs)"

definition ascii_int :: "string \<Rightarrow> int option" where
  "ascii_int s =
     (case s of
        [] \<Rightarrow> None
      | c # cs \<Rightarrow>
          if c = CHR ''-'' then (if cs = [] then None else map_option uminus (digits_of 0 cs))
          else if c = CHR ''+'' then (if cs = [] then None else digits_of 0 cs)
          else digits_of 0 s)"

subsection \<open>Parsing the class-list file (lines 113 to 117)\<close>

text \<open>
  \<^verbatim>\<open>
  class_list = list(OrderedDict((l.strip().split()[0], None)
                                for l in class_file if l.strip() != '').keys())
  try:
      class_list = [int(lbl) for lbl in class_list]
  except ValueError:
      pass
  \<close>
  \<open>class_file\<close> is the sequence of lines that iterating the file yields. Every value
  of the ordered dictionary is \<^verbatim>\<open>None\<close>, so the dictionary is its list of keys in insertion
  order: inserting a key that is present changes nothing.
\<close>

datatype class_ids = IntIds "int list" | StrIds "string list"

definition od_insert :: "'k \<Rightarrow> 'k list \<Rightarrow> 'k list" where
  "od_insert k d = (if k \<in> set d then d else d @ [k])"

definition ordered_dict_keys :: "'k list \<Rightarrow> 'k list" where
  "ordered_dict_keys ks = fold od_insert ks []"

text \<open>The generator's items; \<^verbatim>\<open>[0]\<close> on an empty list raises IndexError.\<close>

fun first_words :: "(char \<Rightarrow> bool) \<Rightarrow> string list \<Rightarrow> error + string list" where
  "first_words sp [] = Inr []"
| "first_words sp (l # ls) =
     (case str_split sp (str_strip sp l) of
        [] \<Rightarrow> Inl IndexError
      | w # _ \<Rightarrow> (case first_words sp ls of Inl e \<Rightarrow> Inl e | Inr ws \<Rightarrow> Inr (w # ws)))"

definition parse_class_list ::
  "(char \<Rightarrow> bool) \<Rightarrow> (string \<Rightarrow> int option) \<Rightarrow> string list \<Rightarrow> error + class_ids" where
  "parse_class_list sp int_of class_file =
     (case first_words sp (filter (\<lambda>l. str_strip sp l \<noteq> []) class_file) of
        Inl e \<Rightarrow> Inl e
      | Inr ws \<Rightarrow>
          let keys = ordered_dict_keys ws in
          Inr (case those (map int_of keys) of Some ids \<Rightarrow> IntIds ids | None \<Rightarrow> StrIds keys))"

text \<open>
  The specification's words: the first whitespace-separated token of each non-blank line,
  duplicates removed keeping the first occurrence, all converted to integers if each of
  them parses as one.
\<close>

definition first_token :: "(char \<Rightarrow> bool) \<Rightarrow> string \<Rightarrow> string" where
  "first_token sp l = takeWhile (\<lambda>c. \<not> sp c) (dropWhile sp l)"

definition first_seen :: "'a list \<Rightarrow> 'a list" where
  "first_seen xs = rev (remdups (rev xs))"

definition spec_class_list ::
  "(char \<Rightarrow> bool) \<Rightarrow> (string \<Rightarrow> int option) \<Rightarrow> string list \<Rightarrow> class_ids" where
  "spec_class_list sp int_of class_file =
     (let toks = first_seen (map (first_token sp) (filter (\<lambda>l. \<not> list_all sp l) class_file)) in
      if list_all (\<lambda>t. int_of t \<noteq> None) toks then IntIds (map (\<lambda>t. the (int_of t)) toks)
      else StrIds toks)"

subsection \<open>Loading centroids or the class list (lines 103 to 117)\<close>

text \<open>
  \<^verbatim>\<open>
  centroids = class_list = None
  embed_dim = args.embed_dim
  if args.centroids:
      with open(args.centroids, 'rb') as pf:
          centroids = pickle.load(pf)
          class_list = centroids['ind2label']
          centroids = centroids['embedding']
          embed_dim = centroids.shape[1]
  elif args.class_list is not None:
      with open(args.class_list) as class_file:
          ...
  \<close>
  The file system is a parameter: \<open>pickle_load\<close> gives the content of a centroid file and
  \<open>read_lines\<close> the lines of a text file, each or an error. The result is paired with
  the list of the paths that were opened. A matrix is the list of its rows; one without
  rows is taken to have no columns.
\<close>

type_synonym array = "real list list"

definition ncols :: "array \<Rightarrow> nat" where
  "ncols m = (case m of [] \<Rightarrow> 0 | r # _ \<Rightarrow> length r)"

record centroid_file =
  ind2label :: class_ids
  embedding :: array

record files =
  pickle_load :: "string \<Rightarrow> error + centroid_file"
  read_lines :: "string \<Rightarrow> error + string list"

record loaded =
  loaded_centroids :: "array option"
  loaded_class_list :: "class_ids option"
  loaded_embed_dim :: int

definition load_classes ::
  "files \<Rightarrow> (char \<Rightarrow> bool) \<Rightarrow> (string \<Rightarrow> int option) \<Rightarrow> args \<Rightarrow> string list \<times> (error + loaded)" where
  "load_classes fs sp int_of a =
     (case (if truthy (centroids a) then centroids a else None) of
        Some p \<Rightarrow>
          ([p],
           case pickle_load fs p of
             Inl e \<Rightarrow> Inl e
           | Inr pf \<Rightarrow>
               Inr \<lparr>loaded_centroids = Some (embedding pf),
                    loaded_class_list = Some (ind2label pf),
                    loaded_embed_dim = int (ncols (embedding pf))\<rparr>)
      | None \<Rightarrow>
          (case class_list a of
             Some p \<Rightarrow>
               ([p],
                case read_lines fs p of
                  Inl e \<Rightarrow> Inl e
                | Inr class_file \<Rightarrow>
                    (case parse_class_list sp int_of class_file of
                       Inl e \<Rightarrow> Inl e
                     | Inr ids \<Rightarrow>
                         Inr \<lparr>loaded_centroids = None, loaded_class_list = Some ids,
                              loaded_embed_dim = embed_dim a\<rparr>))
           | None \<Rightarrow>
               ([],
                Inr \<lparr>loaded_centroids = None, loaded_class_list = None,
                     loaded_embed_dim = embed_dim a\<rparr>)))"

section \<open>Data generator\<close>

text \<open>
  The data generator is a collaborator (\<^verbatim>\<open>get_data_generator\<close>); the script reads these
  attributes of it. Labels are class indices.
\<close>

record data_generator =
  num_classes :: nat
  num_train :: int
  num_test :: int
  labels_test :: "nat list"

section \<open>Learning-rate decay (lines 166 to 169)\<close>

text \<open>
  \<^verbatim>\<open>
  if args.max_decay > 0:
      decay = (1.0/args.max_decay - 1) / ((data_generator.num_train // args.batch_size)
                                          * (args.epochs if args.epochs else num_epochs))
  else:
      decay = 0.0
  \<close>
  \<open>num_epochs\<close> is the epoch count that \<^verbatim>\<open>utils.get_lr_schedule\<close> returned.
  \<^verbatim>\<open>//\<close> is floor division, as \<open>div\<close> on \<open>int\<close>; it raises ZeroDivisionError on a zero
  divisor, and so does the division of the float by an integer 0.
  \<^verbatim>\<open>args.epochs if args.epochs else num_epochs\<close> tests the truth of \<^verbatim>\<open>args.epochs\<close>:
  \<^verbatim>\<open>None\<close> and 0 are false.
\<close>

definition train_epochs :: "args \<Rightarrow> int \<Rightarrow> int" where
  "train_epochs a num_epochs =
     (case epochs a of None \<Rightarrow> num_epochs | Some e \<Rightarrow> if e \<noteq> 0 then e else num_epochs)"

definition total_batches :: "args \<Rightarrow> data_generator \<Rightarrow> int \<Rightarrow> int" where
  "total_batches a dg num_epochs = (num_train dg div batch_size a) * train_epochs a num_epochs"

definition compute_decay :: "args \<Rightarrow> data_generator \<Rightarrow> int \<Rightarrow> error + real" where
  "compute_decay a dg num_epochs =
     (if max_decay a > 0 then
        if batch_size a = 0 then Inl ZeroDivisionError
        else if total_batches a dg num_epochs = 0 then Inl ZeroDivisionError
        else Inr ((1 / max_decay a - 1) / real_of_int (total_batches a dg num_epochs))
      else Inr 0)"

text \<open>
  What the optimizer does with the factor: \<^verbatim>\<open>keras.optimizers.SGD(lr, decay)\<close> of Keras 2
  uses, at update number \<open>t\<close>, the rate
  \<^verbatim>\<open>lr * (1. / (1. + decay * iterations))\<close>, and only \<^verbatim>\<open>if self.initial_decay > 0\<close>.
\<close>

definition sgd_rate :: "real \<Rightarrow> real \<Rightarrow> nat \<Rightarrow> real" where
  "sgd_rate lr decay t = (if decay > 0 then lr * (1 / (1 + decay * real t)) else lr)"

section \<open>Average per-class accuracy (lines 185 to 188)\<close>

text \<open>
  \<^verbatim>\<open>
  class_freq = np.bincount(data_generator.labels_test)
  print('Average Accuracy: {:.4f}'.format(
      ((test_pred == np.asarray(data_generator.labels_test)).astype(np.float)
        / class_freq[np.asarray(data_generator.labels_test)]).sum() / len(class_freq)
  ))
  \<close>
  \<^verbatim>\<open>np.bincount\<close> counts the occurrences of each value from 0 to the largest label; of an
  empty array it is empty. Arrays of different lengths are compared by broadcasting when
  one of them has length 1; otherwise the comparison gives a plain \<^verbatim>\<open>False\<close>, which has no
  \<^verbatim>\<open>astype\<close>. An empty list of labels becomes an empty array of floats, and indexing
  \<^verbatim>\<open>class_freq\<close> with it raises IndexError. The final division is a float division: by a
  zero length it would give NaN.
\<close>

datatype np_float = Finite real | NaN

definition bincount :: "nat list \<Rightarrow> nat list" where
  "bincount ls = (if ls = [] then [] else map (count_list ls) [0..<Suc (fold max ls 0)])"

definition broadcast :: "'a list \<Rightarrow> nat \<Rightarrow> 'a list" where
  "broadcast xs n = (if length xs = 1 \<and> n \<noteq> 1 then replicate n (hd xs) else xs)"

definition average_accuracy :: "nat list \<Rightarrow> nat list \<Rightarrow> error + np_float" where
  "average_accuracy test_pred labels =
     (let class_freq = bincount labels;
          n = (if length test_pred = 1 then length labels else length test_pred)
      in
        if length test_pred \<noteq> length labels \<and> length test_pred \<noteq> 1 \<and> length labels \<noteq> 1
        then Inl AttributeError
        else if labels = [] then Inl IndexError
        else
          let correct = map2 (\<lambda>p l. if p = l then (1::real) else 0)
                          (broadcast test_pred n) (broadcast labels n);
              freq = map (\<lambda>l. real (class_freq ! l)) labels;
              total = sum_list (map2 (\<lambda>c f. c / f) correct (broadcast freq n))
          in if class_freq = [] then Inr NaN
             else Inr (Finite (total / real (length class_freq))))"

text \<open>
  The specification's words: the correct-prediction rate of a class is the share of the
  test examples of the class that are predicted as the class; the average is the mean of
  these rates over the classes that have test examples. The overall accuracy is the share
  of correct predictions among all test examples.
\<close>

definition class_rate :: "nat list \<Rightarrow> nat list \<Rightarrow> nat \<Rightarrow> real" where
  "class_rate test_pred labels c =
     real (length (filter (\<lambda>(p, l). l = c \<and> p = l) (zip test_pred labels)))
       / real (count_list labels c)"

definition mean_class_rate :: "nat list \<Rightarrow> nat list \<Rightarrow> real" where
  "mean_class_rate test_pred labels =
     sum_list (map (class_rate test_pred labels) (remdups labels)) / real (length (remdups labels))"

definition overall_accuracy :: "nat list \<Rightarrow> nat list \<Rightarrow> real" where
  "overall_accuracy test_pred labels =
     real (length (filter (\<lambda>(p, l). p = l) (zip test_pred labels))) / real (length labels)"

section \<open>Model builder (lines 17 to 41)\<close>

subsection \<open>Layers and models\<close>

text \<open>
  A Keras layer, as far as the script looks at it: its name, its \<^verbatim>\<open>trainable\<close> flag and
  its weight arrays. The embedding network \<^verbatim>\<open>base_model\<close> comes from
  \<^verbatim>\<open>utils.build_network\<close>; it is a parameter: its layers and the last dimension of its
  output \<open>(None, output_dim)\<close>, a batch of vectors. A static shape is a list of dimensions,
  \<open>None\<close> for the batch dimension.
\<close>

type_synonym shape = "nat option list"

record layer =
  lname :: string
  trainable :: bool
  weights :: "array list"

record base_model =
  base_layers :: "layer list"
  output_dim :: "nat option"

text \<open>
  The second argument of \<^verbatim>\<open>center_loss_model\<close>: a NumPy matrix of fixed centroids or a
  number of classes.
\<close>

datatype centroids_arg = Ndarray array | Count nat

text \<open>
  The model: \<^verbatim>\<open>model.layers\<close> and the static shapes of its outputs. The new model is
  built on the tensors of the embedding network, so the layers of the embedding network
  are layers of the model, the same objects: they are the first \<open>n_trunk\<close> entries of
  \<open>layers\<close>, and \<^verbatim>\<open>embed_model.layers[-1]\<close> is the entry \<open>n_trunk - 1\<close>. (The order in
  which Keras lists the layers is immaterial below.)
\<close>

record model =
  layers :: "layer list"
  n_trunk :: nat
  output_shapes :: "shape list"

subsection \<open>Static shapes of the layers used\<close>

definition dense_shape :: "nat \<Rightarrow> shape \<Rightarrow> shape" where
  "dense_shape units s = butlast s @ [Some units]"

definition embedding_shape :: "nat \<Rightarrow> shape \<Rightarrow> shape" where
  "embedding_shape k s = s @ [Some k]"

text \<open>\<^verbatim>\<open>lambda x: x[:,None,:]\<close> on a batch of vectors.\<close>

definition new_axis_shape :: "shape \<Rightarrow> shape" where
  "new_axis_shape s = take 1 s @ [Some 1] @ drop 1 s"

text \<open>\<^verbatim>\<open>keras.layers.subtract\<close> of two tensors of the same shape.\<close>

definition subtract_shape :: "shape \<Rightarrow> shape \<Rightarrow> error + shape" where
  "subtract_shape s t = (if s = t then Inr s else Inl ValueError)"

text \<open>\<^verbatim>\<open>K.sum(..., axis = -1)\<close> removes the last axis.\<close>

definition sum_last_shape :: "shape \<Rightarrow> shape" where
  "sum_last_shape s = butlast s"

subsection \<open>The builder\<close>

text \<open>
  \<^verbatim>\<open>
  def center_loss_model(base_model, centroids):
      num_classes = centroids.shape[0] if isinstance(centroids, np.ndarray) else centroids
      input_ = base_model.input
      embedding = base_model.output
      prob = keras.layers.Activation('relu')(embedding)
      prob = keras.layers.BatchNormalization(name='embedding_bn')(prob)
      prob = keras.layers.Dense(num_classes, activation = 'softmax', name = 'prob')(prob)
      cls_input_ = keras.layers.Input((1,), name = 'labels')
      cls_embedding_layer = keras.layers.Embedding(num_classes, int(embedding.shape[-1]),
                                                   name = 'cls_centroids')
      cls_embedding = cls_embedding_layer(cls_input_)
      if isinstance(centroids, np.ndarray):
          cls_embedding_layer.set_weights([centroids])
          cls_embedding_layer.trainable = False
      center_loss = keras.layers.subtract([
              keras.layers.Lambda(lambda x: x[:,None,:])(embedding),
              cls_embedding
          ], name = 'center_dist')
      center_loss = keras.layers.Lambda(lambda x: K.sum(K.square(x), axis = -1) / 2,
                                        name = 'center_loss')(center_loss)
      return keras.models.Model([input_, cls_input_], [prob, center_loss])
  \<close>
  Parameters of the model of Keras: \<open>init\<close> gives the initial weights that the
  initializers draw for a new layer, by the layer's name; \<open>uid\<close> gives the counter that
  Keras appends to the name of a layer created without one (\<^verbatim>\<open>activation_1\<close>,
  \<^verbatim>\<open>lambda_1\<close>). A layer is trainable when created, an input layer is not. Batch
  normalization needs the last dimension of its input and raises ValueError without it;
  \<^verbatim>\<open>set_weights\<close> raises ValueError when the matrix does not have the shape of the
  layer's table; \<^verbatim>\<open>Model\<close> raises ValueError when two layers share a name.
\<close>

definition num_classes_of :: "centroids_arg \<Rightarrow> nat" where
  "num_classes_of cents = (case cents of Ndarray m \<Rightarrow> length m | Count k \<Rightarrow> k)"

definition head_layers :: "(string \<Rightarrow> array list) \<Rightarrow> (string \<Rightarrow> string) \<Rightarrow> centroids_arg \<Rightarrow> layer list" where
  "head_layers init uid cents =
     [\<lparr>lname = ''activation_'' @ uid ''activation'', trainable = True, weights = []\<rparr>,
      \<lparr>lname = ''embedding_bn'', trainable = True, weights = init ''embedding_bn''\<rparr>,
      \<lparr>lname = ''prob'', trainable = True, weights = init ''prob''\<rparr>,
      \<lparr>lname = ''labels'', trainable = False, weights = []\<rparr>,
      (case cents of
         Ndarray m \<Rightarrow> \<lparr>lname = ''cls_centroids'', trainable = False, weights = [m]\<rparr>
       | Count k \<Rightarrow> \<lparr>lname = ''cls_centroids'', trainable = True, weights = init ''cls_centroids''\<rparr>),
      \<lparr>lname = ''lambda_'' @ uid ''lambda'', trainable = True, weights = []\<rparr>,
      \<lparr>lname = ''center_dist'', trainable = True, weights = []\<rparr>,
      \<lparr>lname = ''center_loss'', trainable = True, weights = []\<rparr>]"

definition center_loss_model ::
  "(string \<Rightarrow> array list) \<Rightarrow> (string \<Rightarrow> string) \<Rightarrow> base_model \<Rightarrow> centroids_arg \<Rightarrow> error + model" where
  "center_loss_model init uid base cents =
     (case output_dim base of
        None \<Rightarrow> Inl ValueError
      | Some d \<Rightarrow>
          let n = num_classes_of cents;
              prob_shape = dense_shape n [None, Some d];
              cls_embedding_shape = embedding_shape d [None, Some 1]
          in
            if (case cents of Ndarray m \<Rightarrow> \<not> list_all (\<lambda>r. length r = d) m | Count k \<Rightarrow> False)
            then Inl ValueError
            else
              (case subtract_shape (new_axis_shape [None, Some d]) cls_embedding_shape of
                 Inl e \<Rightarrow> Inl e
               | Inr center_dist_shape \<Rightarrow>
                   let all_layers = base_layers base @ head_layers init uid cents in
                   if \<not> distinct (map lname all_layers) then Inl ValueError
                   else Inr \<lparr>layers = all_layers,
                             n_trunk = length (base_layers base),
                             output_shapes = [prob_shape, sum_last_shape center_dist_shape]\<rparr>))"

subsection \<open>What the center-loss head computes\<close>

text \<open>
  The values of the second output for a batch: \<open>emb\<close> is the batch of embedding vectors
  that the embedding network produced, \<open>lab\<close> the batch of label inputs, one label per
  example (the input has the shape \<open>(1,)\<close>), \<open>table\<close> the weight matrix of
  \<^verbatim>\<open>cls_centroids\<close>. The batch sizes must agree, every example must have the input's
  shape, and a label outside the table is an error of the lookup.
\<close>

definition new_axis :: "real list list \<Rightarrow> real list list list" where
  "new_axis x = map (\<lambda>v. [v]) x"

definition embedding_lookup :: "array \<Rightarrow> nat list list \<Rightarrow> error + real list list list" where
  "embedding_lookup table idx =
     (if list_all (list_all (\<lambda>l. l < length table)) idx
      then Inr (map (map (\<lambda>l. table ! l)) idx)
      else Inl IndexError)"

definition subtract :: "real list list list \<Rightarrow> real list list list \<Rightarrow> real list list list" where
  "subtract a b = map2 (map2 (map2 (\<lambda>x y. x - y))) a b"

definition half_sum_square :: "real list list list \<Rightarrow> real list list" where
  "half_sum_square x = map (map (\<lambda>v. sum_list (map (\<lambda>z. z ^ 2) v) / 2)) x"

definition center_loss_output :: "array \<Rightarrow> real list list \<Rightarrow> nat list list \<Rightarrow> error + real list list" where
  "center_loss_output table emb lab =
     (if length emb \<noteq> length lab \<or> \<not> list_all (\<lambda>r. length r = 1) lab
         \<or> \<not> list_all (\<lambda>v. length v = ncols table) emb
      then Inl ValueError
      else
        (case embedding_lookup table lab of
           Inl e \<Rightarrow> Inl e
         | Inr cls_embedding \<Rightarrow> Inr (half_sum_square (subtract (new_axis emb) cls_embedding))))"

text \<open>\<^verbatim>\<open>model.get_layer(name)\<close>, and the table of the centroid layer.\<close>

definition get_layer :: "layer list \<Rightarrow> string \<Rightarrow> layer option" where
  "get_layer ls name = find (\<lambda>l. lname l = name) ls"

definition centroid_table :: "layer list \<Rightarrow> array option" where
  "centroid_table ls =
     (case get_layer ls ''cls_centroids'' of
        None \<Rightarrow> None
      | Some l \<Rightarrow> (case weights l of [t] \<Rightarrow> Some t | _ \<Rightarrow> None))"

definition model_center_loss :: "layer list \<Rightarrow> real list list \<Rightarrow> nat list list \<Rightarrow> error + real list list" where
  "model_center_loss ls emb lab =
     (case centroid_table ls of
        None \<Rightarrow> Inl ValueError
      | Some table \<Rightarrow> center_loss_output table emb lab)"

text \<open>The runtime shape of a batch of rows, and the specification's distance.\<close>

definition batch_shape :: "'a list list \<Rightarrow> nat list" where
  "batch_shape x = (case x of [] \<Rightarrow> [0] | r # _ \<Rightarrow> [length x, length r])"

definition half_sq_dist :: "nat \<Rightarrow> real list \<Rightarrow> real list \<Rightarrow> real" where
  "half_sq_dist d v c = (\<Sum>j<d. (v ! j - c ! j) ^ 2) / 2"

section \<open>Training (lines 138 to 180)\<close>

subsection \<open>What Keras does\<close>

text \<open>
  \<^verbatim>\<open>model.load_weights(path, by_name=True, skip_mismatch=True)\<close>: for every layer name
  of the file, the layer of the model with that name takes the file's arrays. With
  \<^verbatim>\<open>skip_mismatch\<close> a layer whose number of arrays differs is left as it is, and so is
  each array whose shape differs; neither raises. The content of a weight file is a list
  of layer names with their arrays.
\<close>

definition array_shape :: "array \<Rightarrow> nat \<times> nat" where
  "array_shape m = (length m, ncols m)"

definition load_layer :: "array list \<Rightarrow> layer \<Rightarrow> layer" where
  "load_layer ws l =
     (if length ws \<noteq> length (weights l) then l
      else l\<lparr>weights := map2 (\<lambda>old new. if array_shape new = array_shape old then new else old)
                           (weights l) ws\<rparr>)"

definition load_weights_by_name :: "(string \<times> array list) list \<Rightarrow> layer list \<Rightarrow> layer list" where
  "load_weights_by_name file ls =
     map (\<lambda>l. case map_of file (lname l) of None \<Rightarrow> l | Some ws \<Rightarrow> load_layer ws l) ls"

text \<open>
  One update of the compiled model changes the weights of the layers that are trainable
  and of no other layer. What it changes them to depends on the optimizer, the losses and
  the batch: \<open>upd\<close> is a parameter, from the layers of the model and the layer updated.
  \<open>fit\<close> runs \<open>k\<close> updates, numbered from 0. The flags are those at the call of
  \<^verbatim>\<open>compile\<close>, which in the script comes right before \<^verbatim>\<open>fit_generator\<close> each time.
\<close>

definition train_step :: "(layer list \<Rightarrow> layer \<Rightarrow> array list) \<Rightarrow> layer list \<Rightarrow> layer list" where
  "train_step upd ls = map (\<lambda>l. if trainable l then l\<lparr>weights := upd ls l\<rparr> else l) ls"

primrec fit :: "(nat \<Rightarrow> layer list \<Rightarrow> layer \<Rightarrow> array list) \<Rightarrow> nat \<Rightarrow> layer list \<Rightarrow> layer list" where
  "fit upd 0 ls = ls"
| "fit upd (Suc k) ls = train_step (upd k) (fit upd k ls)"

text \<open>
  The training environment: \<open>sgd lr decay t\<close> is update number \<open>t\<close> of
  \<^verbatim>\<open>keras.optimizers.SGD(lr, decay, momentum=0.9, clipnorm)\<close> on the joint loss (with the
  callbacks of the learning-rate schedule), \<open>steps_per_epoch\<close> the length of the training
  sequence, \<open>h5_read\<close> the content of a weight file or the error of reading it.
\<close>

record trainer =
  sgd :: "real \<Rightarrow> real \<Rightarrow> nat \<Rightarrow> layer list \<Rightarrow> layer \<Rightarrow> array list"
  steps_per_epoch :: nat
  h5_read :: "string \<Rightarrow> error + (string \<times> array list) list"

text \<open>What the script does, as a trace.\<close>

datatype event =
    LoadWeights string bool bool
  | Compile real real
  | FitGenerator int
  | PrintEvaluation "real list"
  | PrintAverageAccuracy np_float
  | PrintText string
  | SaveWeights string
  | SaveModel string
  | DumpFeatures string

subsection \<open>The finetune phase (lines 138 to 156)\<close>

text \<open>
  \<^verbatim>\<open>
  if args.finetune:
      print('Loading pre-trained weights from {}'.format(args.finetune))
      model.load_weights(args.finetune, by_name=True, skip_mismatch=True)
      print('Pre-training new layers')
      for layer in model.layers:
          layer.trainable = (layer.name in ('embedding', 'embedding_bn', 'prob', 'cls_centroids'))
      embed_model.layers[-1].trainable = True
      par_model.compile(optimizer = keras.optimizers.SGD(lr=args.sgd_lr, momentum=0.9, ...), ...)
      par_model.fit_generator(..., epochs = args.finetune_init, ...)
      for layer in model.layers:
          layer.trainable = True
      print('Full model training')
  \<close>
  \<^verbatim>\<open>par_model\<close> is the model or its multi-GPU wrapper, which trains the same layers.
\<close>

definition finetune_names :: "string list" where
  "finetune_names = [''embedding'', ''embedding_bn'', ''prob'', ''cls_centroids'']"

definition set_finetune_trainable :: "model \<Rightarrow> error + model" where
  "set_finetune_trainable m =
     (let ls = map (\<lambda>l. l\<lparr>trainable := lname l \<in> set finetune_names\<rparr>) (layers m) in
      if n_trunk m = 0 then Inl IndexError
      else Inr (m\<lparr>layers := ls[n_trunk m - 1 := (ls ! (n_trunk m - 1))\<lparr>trainable := True\<rparr>]\<rparr>))"

definition set_all_trainable :: "model \<Rightarrow> model" where
  "set_all_trainable m = m\<lparr>layers := map (\<lambda>l. l\<lparr>trainable := True\<rparr>) (layers m)\<rparr>"

definition fit_generator :: "(nat \<Rightarrow> layer list \<Rightarrow> layer \<Rightarrow> array list) \<Rightarrow> nat \<Rightarrow> int \<Rightarrow> model \<Rightarrow> model" where
  "fit_generator upd per_epoch n_epochs m = m\<lparr>layers := fit upd (nat n_epochs * per_epoch) (layers m)\<rparr>"

definition finetune_phase :: "trainer \<Rightarrow> args \<Rightarrow> model \<Rightarrow> error + model \<times> event list" where
  "finetune_phase tr a m =
     (case (if truthy (finetune a) then finetune a else None) of
        None \<Rightarrow> Inr (m, [])
      | Some path \<Rightarrow>
          (case h5_read tr path of
             Inl e \<Rightarrow> Inl e
           | Inr file \<Rightarrow>
               (case set_finetune_trainable (m\<lparr>layers := load_weights_by_name file (layers m)\<rparr>) of
                  Inl e \<Rightarrow> Inl e
                | Inr m' \<Rightarrow>
                    Inr (set_all_trainable
                           (fit_generator (sgd tr (sgd_lr a) 0) (steps_per_epoch tr) (finetune_init a) m'),
                         [PrintText (''Loading pre-trained weights from '' @ path),
                          LoadWeights path True True,
                          PrintText ''Pre-training new layers'',
                          Compile (sgd_lr a) 0,
                          FitGenerator (finetune_init a),
                          PrintText ''Full model training'']))))"

subsection \<open>Full training (lines 166 to 180)\<close>

definition full_train ::
  "trainer \<Rightarrow> args \<Rightarrow> data_generator \<Rightarrow> int \<Rightarrow> model \<Rightarrow> error + model \<times> event list" where
  "full_train tr a dg num_epochs m =
     (case compute_decay a dg num_epochs of
        Inl e \<Rightarrow> Inl e
      | Inr decay \<Rightarrow>
          Inr (fit_generator (sgd tr (sgd_lr a) decay) (steps_per_epoch tr) (train_epochs a num_epochs) m,
               [Compile (sgd_lr a) decay, FitGenerator (train_epochs a num_epochs)]))"

definition train_model ::
  "trainer \<Rightarrow> args \<Rightarrow> data_generator \<Rightarrow> int \<Rightarrow> model \<Rightarrow> error + model \<times> event list" where
  "train_model tr a dg num_epochs m =
     (case finetune_phase tr a m of
        Inl e \<Rightarrow> Inl e
      | Inr (m1, ev1) \<Rightarrow>
          (case full_train tr a dg num_epochs m1 of
             Inl e \<Rightarrow> Inl e
           | Inr (m2, ev2) \<Rightarrow> Inr (m2, ev1 @ ev2)))"

section \<open>Evaluation and export (lines 182 to 206)\<close>

text \<open>
  \<^verbatim>\<open>
  if args.weight_dump:
      try:
          model.save_weights(args.weight_dump)
      except Exception as e:
          print('An error occurred while saving the model weights: {}'.format(e))
  if args.model_dump:
      try:
          model.save(args.model_dump)
      except Exception as e:
          print('An error occurred while saving the model: {}'.format(e))
  \<close>
  The outcome of a save is a parameter: \<open>None\<close> when the file was written, \<open>Some msg\<close>
  when the call raised an \<^verbatim>\<open>Exception\<close> whose text is \<open>msg\<close>.
\<close>

record exporter =
  save_weights :: "string \<Rightarrow> string option"
  save :: "string \<Rightarrow> string option"
  dump_features :: "string \<Rightarrow> error option"

definition save_model :: "exporter \<Rightarrow> args \<Rightarrow> event list" where
  "save_model ex a =
     (case (if truthy (weight_dump a) then weight_dump a else None) of
        None \<Rightarrow> []
      | Some path \<Rightarrow>
          SaveWeights path #
          (case save_weights ex path of
             None \<Rightarrow> []
           | Some e \<Rightarrow> [PrintText (''An error occurred while saving the model weights: '' @ e)]))
     @
     (case (if truthy (model_dump a) then model_dump a else None) of
        None \<Rightarrow> []
      | Some path \<Rightarrow>
          SaveModel path #
          (case save ex path of
             None \<Rightarrow> []
           | Some e \<Rightarrow> [PrintText (''An error occurred while saving the model: '' @ e)]))"

text \<open>
  The end of the script, from the evaluation on: \<open>evaluation\<close> is the result of
  \<^verbatim>\<open>evaluate_generator\<close> and \<open>test_pred\<close> the predicted classes. The feature dump stands
  outside any \<^verbatim>\<open>try\<close>: its error ends the run. The result is the trace and the error
  that ended the run, if any.
\<close>

definition evaluate_and_export ::
  "exporter \<Rightarrow> args \<Rightarrow> data_generator \<Rightarrow> real list \<Rightarrow> nat list \<Rightarrow> event list \<times> error option" where
  "evaluate_and_export ex a dg evaluation test_pred =
     (case average_accuracy test_pred (labels_test dg) of
        Inl e \<Rightarrow> ([PrintEvaluation evaluation], Some e)
      | Inr acc \<Rightarrow>
          let printed = [PrintEvaluation evaluation, PrintAverageAccuracy acc] @ save_model ex a in
          (case (if truthy (feature_dump a) then feature_dump a else None) of
             None \<Rightarrow> (printed, None)
           | Some path \<Rightarrow>
               (case dump_features ex path of
                  None \<Rightarrow> (printed @ [DumpFeatures path], None)
                | Some e \<Rightarrow> (printed, Some e))))"
section \<open>Properties of the batch transform\<close>

lemma one_hot_update:
  assumes "0 \<le> l" "l < n"
  shows "(replicate (nat n) (0::real))[np_index n l := 1] = one_hot l n"
proof (rule nth_equalityI)
  show "length ((replicate (nat n) (0::real))[np_index n l := 1]) = length (one_hot l n)"
    by (simp add: one_hot_def)
next
  fix i assume "i < length ((replicate (nat n) (0::real))[np_index n l := 1])"
  then have i: "i < nat n" by simp
  with assms show "(replicate (nat n) (0::real))[np_index n l := 1] ! i = one_hot l n ! i"
    by (auto simp: one_hot_def np_index_def nth_list_update)
qed

lemma sum_list_unit: "k < n \<Longrightarrow> sum_list ((replicate n (0::real))[k := 1]) = 1"
proof (induction n arbitrary: k)
  case 0
  then show ?case by simp
next
  case (Suc n)
  then show ?case by (cases k) (simp_all add: sum_list_replicate)
qed

lemma sum_list_one_hot:
  assumes "0 \<le> l" "l < n"
  shows "sum_list (one_hot l n) = 1"
proof -
  have "np_index n l < nat n"
    using assms by (simp add: np_index_def)
  then have "sum_list ((replicate (nat n) (0::real))[np_index n l := 1]) = 1"
    by (rule sum_list_unit)
  then show ?thesis using assms by (simp add: one_hot_update)
qed

lemma list_ex_in_range:
  assumes "\<forall>l\<in>set y. 0 \<le> l \<and> l < (n::int)"
  shows "\<not> list_ex (\<lambda>l. n \<le> l \<or> l < - n) y"
  using assms by (fastforce simp: list_ex_iff)

lemma to_categorical_in_range:
  assumes "0 < n" "\<forall>l\<in>set y. 0 \<le> l \<and> l < n"
  shows "to_categorical y n = Inr (map (\<lambda>l. one_hot l n) y)"
proof -
  have "map (\<lambda>l. (replicate (nat n) (0::real))[np_index n l := 1]) y = map (\<lambda>l. one_hot l n) y"
    using assms(2) by (intro map_cong refl one_hot_update) auto
  then show ?thesis
    using assms list_ex_in_range [OF assms(2)] by (simp add: to_categorical_def)
qed

lemma np_index_wrap:
  "np_index n l = np_index n (if l < 0 then l + n else l)" if "- n \<le> l"
  using that by (simp add: np_index_def)

lemma to_categorical_wrap:
  assumes "0 < n" "\<not> list_ex (\<lambda>l. n \<le> l \<or> l < - n) y"
  shows "to_categorical y n = Inr (map (\<lambda>l. one_hot (if l < 0 then l + n else l) n) y)"
proof -
  have "(replicate (nat n) (0::real))[np_index n l := 1] = one_hot (if l < 0 then l + n else l) n"
    if "l \<in> set y" for l
  proof -
    from that assms(2) have l: "- n \<le> l" "l < n"
      by (auto simp: list_ex_iff)
    then have "0 \<le> (if l < 0 then l + n else l)" "(if l < 0 then l + n else l) < n"
      by auto
    from one_hot_update [OF this] np_index_wrap [OF l(1)] show ?thesis
      by simp
  qed
  then have "map (\<lambda>l. (replicate (nat n) (0::real))[np_index n l := 1]) y =
             map (\<lambda>l. one_hot (if l < 0 then l + n else l) n) y"
    by (intro map_cong refl)
  then show ?thesis
    using assms by (simp add: to_categorical_def)
qed

lemma to_categorical_out_of_range:
  assumes "0 < n" "list_ex (\<lambda>l. n \<le> l \<or> l < - n) y"
  shows "to_categorical y n = Inl IndexError"
  using assms by (simp add: to_categorical_def)

text \<open>
  Claim C5. For every batch of images \<open>X\<close> and labels \<open>y\<close> that all lie in
  \<open>[0, num_classes)\<close>, \<^verbatim>\<open>transform_inputs\<close> returns the inputs \<open>[X, y]\<close> unchanged
  and the targets \<open>[one_hot(y), zeros(len(X))]\<close>: every one-hot row sums to 1 and the second
  target has length \<open>len(X)\<close> and holds only zeros. The class count is that of a data set,
  at least 1 (the script passes \<^verbatim>\<open>data_generator.num_classes\<close>, line 135).
\<close>

theorem transform_inputs_in_range:
  assumes "0 < n" "\<forall>l\<in>set y. 0 \<le> l \<and> l < n"
  shows "transform_inputs X y n =
           Inr ((X, y), (map (\<lambda>l. one_hot l n) y, replicate (length X) 0))
         \<and> (\<forall>l\<in>set y. sum_list (one_hot l n) = 1)
         \<and> length (replicate (length X) (0::real)) = length X
         \<and> (\<forall>z\<in>set (replicate (length X) (0::real)). z = 0)"
  using assms by (simp add: transform_inputs_def to_categorical_in_range sum_list_one_hot)

theorem transform_inputs_in_range_witness:
  "transform_inputs [''img0'', ''img1''] [2, 0] 3 =
     Inr (([''img0'', ''img1''], [2, 0]), ([[0, 0, 1], [1, 0, 0]], [0, 0]))
   \<and> sum_list [0, 0, 1 :: real] = 1 \<and> sum_list [1, 0, 0 :: real] = 1"
  using transform_inputs_in_range [of 3 "[2, 0]" "[''img0'', ''img1'']"]
  by (simp add: one_hot_def upt_conv_Cons)

text \<open>
  Why the class count is taken positive: Keras reads a class count of 0 as "not given" and
  takes the maximum of the label array, which raises ValueError on an empty batch. The
  script never makes this call.
\<close>

lemma transform_inputs_zero_classes:
  "transform_inputs ([] :: string list) [] 0 = Inl ValueError"
  by (simp add: transform_inputs_def to_categorical_def)

text \<open>
  Claim C6, as amended. For a class count of at least 1, \<^verbatim>\<open>transform_inputs\<close> raises
  (IndexError) exactly when some label is at least \<open>num_classes\<close> or below
  \<open>- num_classes\<close>. A negative label in \<open>[- num_classes, 0)\<close> raises nothing: it is encoded
  as the class \<open>l + num_classes\<close>, counting from the end.
\<close>

theorem transform_inputs_raises_iff:
  assumes "0 < n"
  shows "(if list_ex (\<lambda>l. n \<le> l \<or> l < - n) y
          then transform_inputs X y n = Inl IndexError
          else transform_inputs X y n =
             Inr ((X, y), (map (\<lambda>l. one_hot (if l < 0 then l + n else l) n) y,
                           replicate (length X) 0)))"
  using assms
  by (simp add: transform_inputs_def to_categorical_wrap to_categorical_out_of_range)

theorem transform_inputs_raises_iff_witness:
  "transform_inputs [''img0'', ''img1''] [1, 3] 3 = Inl IndexError
   \<and> transform_inputs [''img0'', ''img1''] [1, - 4] 3 = Inl IndexError
   \<and> transform_inputs [''img0'', ''img1''] [1, - 3] 3 =
       Inr (([''img0'', ''img1''], [1, - 3]), ([[0, 1, 0], [1, 0, 0]], [0, 0]))"
  using transform_inputs_raises_iff [of 3 "[1, 3]" "[''img0'', ''img1'']"]
        transform_inputs_raises_iff [of 3 "[1, - 4]" "[''img0'', ''img1'']"]
        transform_inputs_raises_iff [of 3 "[1, - 3]" "[''img0'', ''img1'']"]
  by (simp add: one_hot_def upt_conv_Cons)

text \<open>
  Claim C6 as stated fails at the label \<open>-1\<close> with three classes: it lies outside
  \<open>[0, 3)\<close>, and the call returns the one-hot row of class 2 instead of raising.
\<close>

theorem transform_inputs_negative_label:
  "transform_inputs [''img0''] [- 1] 3 = Inr (([''img0''], [- 1]), ([[0, 0, 1]], [0]))"
  by (simp add: transform_inputs_def to_categorical_def np_index_def eval_nat_numeral)


section \<open>Properties of the class-list parser\<close>

lemma strip_empty_iff: "str_strip sp l = [] \<longleftrightarrow> list_all sp l"
proof (cases "dropWhile sp l = []")
  case True
  have "str_strip sp l = []" unfolding str_strip_def True by simp
  moreover from True have "list_all sp l"
    by (simp only: dropWhile_eq_Nil_conv list_all_iff)
  ultimately show ?thesis by simp
next
  case False
  then have "\<not> sp (hd (dropWhile sp l))" by (rule hd_dropWhile)
  moreover have "hd (dropWhile sp l) \<in> set (dropWhile sp l)" using False by simp
  ultimately have "\<not> (\<forall>x\<in>set (rev (dropWhile sp l)). sp x)" by auto
  then have "dropWhile sp (rev (dropWhile sp l)) \<noteq> []"
    by (simp only: dropWhile_eq_Nil_conv) simp
  then have "str_strip sp l \<noteq> []" by (simp add: str_strip_def)
  moreover from False have "\<not> list_all sp l"
    by (simp only: dropWhile_eq_Nil_conv list_all_iff) simp
  ultimately show ?thesis by simp
qed

lemma split_acc_cur:
  "cur \<noteq> [] \<Longrightarrow> split_acc sp cur s =
     (cur @ takeWhile (\<lambda>c. \<not> sp c) s) # split_acc sp [] (dropWhile (\<lambda>c. \<not> sp c) s)"
proof (induction s arbitrary: cur)
  case Nil
  then show ?case by simp
next
  case (Cons c cs)
  show ?case
  proof (cases "sp c")
    case True
    with Cons.prems show ?thesis by simp
  next
    case False
    have "split_acc sp (cur @ [c]) cs =
        ((cur @ [c]) @ takeWhile (\<lambda>c. \<not> sp c) cs) # split_acc sp [] (dropWhile (\<lambda>c. \<not> sp c) cs)"
      by (rule Cons.IH) simp
    with False show ?thesis by simp
  qed
qed

lemma split_acc_head:
  "\<not> list_all sp s \<Longrightarrow> \<exists>ws. split_acc sp [] s = first_token sp s # ws"
proof (induction s)
  case Nil
  then show ?case by simp
next
  case (Cons c cs)
  show ?case
  proof (cases "sp c")
    case True
    with Cons show ?thesis by (simp add: first_token_def)
  next
    case False
    then show ?thesis
      using split_acc_cur [of "[c]" sp cs] by (simp add: first_token_def)
  qed
qed

lemma takeWhile_rtrim:
  "takeWhile (\<lambda>c. \<not> sp c) (rev (dropWhile sp (rev m))) = takeWhile (\<lambda>c. \<not> sp c) m"
proof -
  have m: "m = rev (dropWhile sp (rev m)) @ rev (takeWhile sp (rev m))"
    by (metis rev_append rev_rev_ident takeWhile_dropWhile_id)
  let ?a = "rev (dropWhile sp (rev m))" and ?b = "rev (takeWhile sp (rev m))"
  have b: "\<forall>x\<in>set ?b. sp x"
    by (auto dest: set_takeWhileD)
  have "takeWhile (\<lambda>c. \<not> sp c) (?a @ ?b) = takeWhile (\<lambda>c. \<not> sp c) ?a"
  proof (cases "\<forall>x\<in>set ?a. \<not> sp x")
    case True
    have e2: "takeWhile (\<lambda>c. \<not> sp c) ?b = []"
      using b by (cases ?b) auto
    have e1: "takeWhile (\<lambda>c. \<not> sp c) (?a @ ?b) = ?a @ takeWhile (\<lambda>c. \<not> sp c) ?b"
      using True by (intro takeWhile_append2) blast
    have e3: "takeWhile (\<lambda>c. \<not> sp c) ?a = ?a"
      using True by (intro takeWhile_eq_all_conv [THEN iffD2]) blast
    show ?thesis by (simp only: e1 e2 e3 append_Nil2)
  next
    case False
    then obtain x where "x \<in> set ?a" "sp x" by blast
    then show ?thesis by (simp add: takeWhile_append1)
  qed
  with m show ?thesis by metis
qed

lemma first_token_strip:
  "\<not> list_all sp l \<Longrightarrow> first_token sp (str_strip sp l) = first_token sp l"
proof -
  assume nb: "\<not> list_all sp l"
  let ?m = "dropWhile sp l"
  have "?m \<noteq> []" using nb by (simp add: dropWhile_eq_Nil_conv list_all_iff)
  then have hd: "\<not> sp (hd ?m)" by (rule hd_dropWhile)
  have ne: "str_strip sp l \<noteq> []" using nb by (simp add: strip_empty_iff)
  have "rev (dropWhile sp (rev ?m)) \<noteq> []" using ne by (simp add: str_strip_def)
  moreover have "hd (rev (dropWhile sp (rev ?m))) = hd ?m"
    by (metis \<open>?m \<noteq> []\<close> calculation hd_append2 rev_append rev_rev_ident takeWhile_dropWhile_id)
  ultimately have "dropWhile sp (rev (dropWhile sp (rev ?m))) = rev (dropWhile sp (rev ?m))"
    using hd by (cases "rev (dropWhile sp (rev ?m))") auto
  then show ?thesis
    by (simp add: first_token_def str_strip_def takeWhile_rtrim)
qed


lemma first_words_nonblank:
  "\<forall>l\<in>set ls. \<not> list_all sp l \<Longrightarrow> first_words sp ls = Inr (map (first_token sp) ls)"
proof (induction ls)
  case Nil
  then show ?case by simp
next
  case (Cons l ls)
  then have nb: "\<not> list_all sp l" by simp
  then have "\<not> list_all sp (str_strip sp l)"
    by (metis strip_empty_iff str_strip_def dropWhile_eq_Nil_conv list_all_iff rev_is_Nil_conv set_rev dropWhile_idem)
  then obtain ws where "split_acc sp [] (str_strip sp l) = first_token sp (str_strip sp l) # ws"
    using split_acc_head by blast
  with nb Cons show ?case
    by (simp add: str_split_def first_token_strip)
qed

lemma first_seen_snoc:
  "first_seen (xs @ [x]) = od_insert x (first_seen xs)"
  by (simp add: first_seen_def od_insert_def)

lemma fold_od_insert:
  "fold od_insert xs (first_seen acc) = first_seen (acc @ xs)"
proof (induction xs arbitrary: acc)
  case Nil
  then show ?case by simp
next
  case (Cons x xs)
  have "fold od_insert (x # xs) (first_seen acc) = fold od_insert xs (first_seen (acc @ [x]))"
    by (simp add: first_seen_snoc)
  also have "\<dots> = first_seen ((acc @ [x]) @ xs)" by (rule Cons.IH)
  finally show ?case by simp
qed

lemma ordered_dict_keys_first_seen: "ordered_dict_keys ks = first_seen ks"
  using fold_od_insert [of ks "[]"] by (simp add: ordered_dict_keys_def first_seen_def)

lemma those_map:
  "those (map f xs) = (if list_all (\<lambda>t. f t \<noteq> None) xs then Some (map (\<lambda>t. the (f t)) xs) else None)"
  by (induction xs) (auto split: option.splits)

text \<open>
  Claim C8. For every sequence of lines of the class-list file, every whitespace predicate
  and every integer parser, parsing never fails and yields the first whitespace-separated
  tokens of the non-blank lines, duplicates removed keeping the first occurrence, converted
  to integers if each of them parses as an integer and kept as strings otherwise.
\<close>

theorem parse_class_list_spec:
  "parse_class_list sp int_of class_file = Inr (spec_class_list sp int_of class_file)"
proof -
  let ?ls = "filter (\<lambda>l. \<not> list_all sp l) class_file"
  have f: "filter (\<lambda>l. str_strip sp l \<noteq> []) class_file = ?ls"
    by (simp add: strip_empty_iff)
  have "first_words sp ?ls = Inr (map (first_token sp) ?ls)"
    by (rule first_words_nonblank) simp
  then show ?thesis
    by (simp add: parse_class_list_def spec_class_list_def f ordered_dict_keys_first_seen
        those_map Let_def)
qed

theorem parse_class_list_spec_witness:
  "parse_class_list ascii_space ascii_int
     [''7 seven\<newline>'', ''\<newline>'', ''  12\<newline>'', ''7 again\<newline>'', ''-3''] = Inr (IntIds [7, 12, - 3])
   \<and> parse_class_list ascii_space ascii_int
     [''cat 1\<newline>'', ''  \<newline>'', ''12\<newline>'', ''cat 2\<newline>''] = Inr (StrIds [''cat'', ''12''])"
  unfolding parse_class_list_spec
  by (simp add: spec_class_list_def first_token_def first_seen_def ascii_space_def ascii_int_def
      digit_of_def)

section \<open>Properties of the centroid and class-list loader\<close>

text \<open>
  Claim C10. When a centroid file is given (\<^verbatim>\<open>args.centroids\<close> is a non-empty path), the
  class-list file is not opened and neither the \<^verbatim>\<open>--class_list\<close> argument nor the content
  of any text file has an influence: the only file opened is the centroid file, and the
  class list is the centroid file's \<^verbatim>\<open>ind2label\<close>.
\<close>

theorem centroid_file_overrides_class_list:
  assumes "truthy (centroids a)"
  shows "load_classes (fs\<lparr>read_lines := rl\<rparr>) sp' int_of' (a\<lparr>class_list := cl\<rparr>) = load_classes fs sp int_of a
       \<and> fst (load_classes fs sp int_of a) = [the (centroids a)]
       \<and> snd (load_classes fs sp int_of a) =
           (case pickle_load fs (the (centroids a)) of
              Inl e \<Rightarrow> Inl e
            | Inr pf \<Rightarrow> Inr \<lparr>loaded_centroids = Some (embedding pf),
                             loaded_class_list = Some (ind2label pf),
                             loaded_embed_dim = int (ncols (embedding pf))\<rparr>)"
  using assms by (auto simp: load_classes_def truthy_def split: option.splits sum.splits)

theorem centroid_file_overrides_class_list_witness:
  "load_classes
     \<lparr>pickle_load = (\<lambda>p. if p = ''centroids.pickle''
          then Inr \<lparr>ind2label = StrIds [''cat'', ''dog''], embedding = [[1, 0, 2], [0, 1, 2]]\<rparr>
          else Inl (IOError p)),
      read_lines = (\<lambda>p. Inr [''fish'', ''bird''])\<rparr>
     ascii_space ascii_int
     \<lparr>class_list = Some ''classes.txt'', embed_dim = 100, centroids = Some ''centroids.pickle'',
      max_decay = 0, epochs = None, batch_size = 100, finetune = None, finetune_init = 3,
      sgd_lr = 1 / 10, model_dump = None, weight_dump = None, feature_dump = None\<rparr>
   = ([''centroids.pickle''],
      Inr \<lparr>loaded_centroids = Some [[1, 0, 2], [0, 1, 2]],
           loaded_class_list = Some (StrIds [''cat'', ''dog'']), loaded_embed_dim = 3\<rparr>)"
  using centroid_file_overrides_class_list [where sp = ascii_space and int_of = ascii_int and a =
     "\<lparr>class_list = Some ''classes.txt'', embed_dim = 100, centroids = Some ''centroids.pickle'',
      max_decay = 0, epochs = None, batch_size = 100, finetune = None, finetune_init = 3,
      sgd_lr = 1 / 10, model_dump = None, weight_dump = None, feature_dump = None\<rparr>"
     and fs = "\<lparr>pickle_load = (\<lambda>p. if p = ''centroids.pickle''
          then Inr \<lparr>ind2label = StrIds [''cat'', ''dog''], embedding = [[1, 0, 2], [0, 1, 2]]\<rparr>
          else Inl (IOError p)),
      read_lines = (\<lambda>p. Inr [''fish'', ''bird''])\<rparr>"]
  by (simp add: truthy_def ncols_def prod_eq_iff)


section \<open>Properties of the average accuracy\<close>

lemma fold_max_ge: "a \<le> fold max ls (a::nat)"
proof (induction ls arbitrary: a)
  case Nil
  then show ?case by simp
next
  case (Cons x xs)
  have "a \<le> max x a" by simp
  also have "\<dots> \<le> fold max xs (max x a)" by (rule Cons.IH)
  finally show ?case by simp
qed

lemma fold_max_bound: "l \<in> set ls \<Longrightarrow> l \<le> fold max ls (a::nat)"
proof (induction ls arbitrary: a)
  case Nil
  then show ?case by simp
next
  case (Cons x xs)
  show ?case
  proof (cases "l = x")
    case True
    have "x \<le> max x a" by simp
    also have "\<dots> \<le> fold max xs (max x a)" by (rule fold_max_ge)
    finally show ?thesis using True by simp
  next
    case False
    with Cons.prems have "l \<in> set xs" by simp
    then show ?thesis using Cons.IH by simp
  qed
qed

lemma fold_max_Max: "ls \<noteq> [] \<Longrightarrow> fold max ls (0::nat) = Max (set ls)"
proof (cases ls)
  case Nil
  assume "ls \<noteq> []"
  with Nil show ?thesis by simp
next
  case (Cons x xs)
  have "fold max (x # xs) 0 = fold max xs x" by simp
  also have "\<dots> = Max (set (x # xs))" by (rule Max.set_eq_fold [symmetric])
  finally show ?thesis by (simp only: Cons)
qed

lemma bincount_nth:
  "l \<in> set ls \<Longrightarrow> bincount ls ! l = count_list ls l"
proof -
  assume l: "l \<in> set ls"
  then have "l < Suc (fold max ls 0)"
    using fold_max_bound [of l ls 0] by simp
  then have "map (count_list ls) [0..<Suc (fold max ls 0)] ! l = count_list ls l"
    by (simp only: nth_map_upt) simp
  with l show ?thesis by (auto simp: bincount_def)
qed

lemma length_bincount: "ls \<noteq> [] \<Longrightarrow> length (bincount ls) = Suc (Max (set ls))"
  by (simp add: bincount_def fold_max_Max)

lemma sum_list_by_key:
  assumes "finite S" "key ` set zs \<subseteq> S"
  shows "sum_list (map g zs) = (\<Sum>c\<in>S. sum_list (map g (filter (\<lambda>z. key z = c) zs)))"
  using assms(2)
proof (induction zs)
  case Nil
  then show ?case by simp
next
  case (Cons z zs)
  then have k: "key z \<in> S" and sub: "key ` set zs \<subseteq> S" by auto
  let ?F = "\<lambda>c. sum_list (map g (filter (\<lambda>z. key z = c) zs))"
  have "(\<Sum>c\<in>S. sum_list (map g (filter (\<lambda>y. key y = c) (z # zs))))
      = (\<Sum>c\<in>S. (if key z = c then g z else 0) + ?F c)"
    by (intro sum.cong refl) simp
  also have "\<dots> = (\<Sum>c\<in>S. (if key z = c then g z else 0)) + (\<Sum>c\<in>S. ?F c)"
    by (rule sum.distrib)
  also have "(\<Sum>c\<in>S. (if key z = c then g z else 0)) = g z"
    using assms(1) k by (simp add: sum.delta')
  finally show ?case using Cons.IH [OF sub] by simp
qed

lemma sum_class:
  "sum_list (map (\<lambda>(p, l). (if p = l then (1::real) else 0) / real (count_list ls l))
       (filter (\<lambda>z. snd z = c) zs))
   = real (length (filter (\<lambda>(p, l). l = c \<and> p = l) zs)) / real (count_list ls c)"
  by (induction zs) (auto simp: add_divide_distrib split: if_splits)


lemma broadcast_same: "length xs = n \<Longrightarrow> broadcast xs n = xs"
  by (auto simp: broadcast_def)

lemma weighted_correct_sum:
  assumes "length test_pred = length labels"
  shows "sum_list (map2 (\<lambda>c f. c / f)
           (map2 (\<lambda>p l. if p = l then (1::real) else 0) test_pred labels)
           (map (\<lambda>l. real (bincount labels ! l)) labels))
       = sum_list (map (class_rate test_pred labels) (remdups labels))"
proof -
  let ?zs = "zip test_pred labels"
  let ?g = "\<lambda>(p, l). (if p = l then (1::real) else 0) / real (count_list labels l)"
  have len: "length ?zs = length labels" using assms by simp
  have "map2 (\<lambda>c f. c / f)
           (map2 (\<lambda>p l. if p = l then (1::real) else 0) test_pred labels)
           (map (\<lambda>l. real (bincount labels ! l)) labels) = map ?g ?zs"
  proof (rule nth_equalityI)
    show "length (map2 (\<lambda>c f. c / f)
           (map2 (\<lambda>p l. if p = l then (1::real) else 0) test_pred labels)
           (map (\<lambda>l. real (bincount labels ! l)) labels)) = length (map ?g ?zs)"
      using assms by simp
  next
    fix i
    assume "i < length (map2 (\<lambda>c f. c / f)
           (map2 (\<lambda>p l. if p = l then (1::real) else 0) test_pred labels)
           (map (\<lambda>l. real (bincount labels ! l)) labels))"
    then have i: "i < length labels" "i < length test_pred" using assms by simp_all
    then have "labels ! i \<in> set labels" by simp
    then have "bincount labels ! (labels ! i) = count_list labels (labels ! i)"
      by (rule bincount_nth)
    with i show "map2 (\<lambda>c f. c / f)
           (map2 (\<lambda>p l. if p = l then (1::real) else 0) test_pred labels)
           (map (\<lambda>l. real (bincount labels ! l)) labels) ! i = map ?g ?zs ! i"
      by simp
  qed
  then have "sum_list (map2 (\<lambda>c f. c / f)
           (map2 (\<lambda>p l. if p = l then (1::real) else 0) test_pred labels)
           (map (\<lambda>l. real (bincount labels ! l)) labels)) = sum_list (map ?g ?zs)"
    by simp
  also have "\<dots> = (\<Sum>c\<in>set labels. sum_list (map ?g (filter (\<lambda>z. snd z = c) ?zs)))"
    by (rule sum_list_by_key) (auto dest: set_zip_rightD)
  also have "\<dots> = (\<Sum>c\<in>set labels. class_rate test_pred labels c)"
    by (intro sum.cong refl) (simp add: sum_class class_rate_def)
  also have "\<dots> = sum_list (map (class_rate test_pred labels) (remdups labels))"
    by (simp add: sum_list_distinct_conv_sum_set)
  finally show ?thesis .
qed

text \<open>
  Claim C3, as amended. For a non-empty sequence of test labels and as many predictions,
  the printed average accuracy is the sum of the per-class correct-prediction rates of the
  classes that occur among the test labels, divided by the largest label plus one (the
  length of \<^verbatim>\<open>np.bincount\<close>). It is the mean over classes of the per-class rate when every
  class index from 0 to the largest label occurs among the test labels; otherwise the
  divisor is larger than the number of classes that have a rate.
\<close>

theorem average_accuracy_per_class:
  assumes "length test_pred = length labels" "labels \<noteq> []"
  shows "average_accuracy test_pred labels =
           Inr (Finite (sum_list (map (class_rate test_pred labels) (remdups labels))
                          / real (Suc (Max (set labels)))))
       \<and> (if set labels = {0..Max (set labels)}
          then average_accuracy test_pred labels = Inr (Finite (mean_class_rate test_pred labels))
          else length (remdups labels) < Suc (Max (set labels)))"
proof -
  have b: "bincount labels \<noteq> []" using assms(2) by (simp add: bincount_def)
  have n: "(if length test_pred = 1 then length labels else length test_pred) = length labels"
    using assms(1) by simp
  have acc: "average_accuracy test_pred labels =
           Inr (Finite (sum_list (map (class_rate test_pred labels) (remdups labels))
                          / real (Suc (Max (set labels)))))"
    using assms b
    by (simp add: average_accuracy_def Let_def n broadcast_same weighted_correct_sum
        length_bincount del: One_nat_def)
  have card: "length (remdups labels) = card (set labels)"
    by (simp add: length_remdups_card_conv)
  show ?thesis
  proof (cases "set labels = {0..Max (set labels)}")
    case True
    then have "card (set labels) = Suc (Max (set labels))"
      by (metis card_atLeastAtMost diff_zero)
    with acc card True show ?thesis by (simp add: mean_class_rate_def)
  next
    case False
    have "set labels \<subseteq> {0..Max (set labels)}" by auto
    with False have "set labels \<subset> {0..Max (set labels)}" by blast
    then have "card (set labels) < card {0..Max (set labels)}"
      by (intro psubset_card_mono) simp_all
    with acc card False show ?thesis by simp
  qed
qed

text \<open>
  An instance with unequal class frequencies: three examples of class 0 and one of class 1,
  all predicted as class 0. The average accuracy is 1/2, the overall accuracy 3/4.
\<close>

theorem average_accuracy_per_class_witness:
  "average_accuracy [0, 0, 0, 0] [0, 0, 0, 1] = Inr (Finite (1 / 2))
   \<and> mean_class_rate [0, 0, 0, 0] [0, 0, 0, 1] = 1 / 2
   \<and> overall_accuracy [0, 0, 0, 0] [0, 0, 0, 1] = 3 / 4"
  using average_accuracy_per_class [of "[0, 0, 0, 0]" "[0, 0, 0, 1]"]
  by (simp add: mean_class_rate_def class_rate_def overall_accuracy_def atLeastAtMost_insertL)

text \<open>
  Claim C3 as stated fails when a class index below the largest label has no test example:
  with the labels 0 and 2, both predicted correctly, every class that has a rate has the
  rate 1, and the script prints 2/3.
\<close>

theorem average_accuracy_missing_class:
  "average_accuracy [0, 2] [0, 2] = Inr (Finite (2 / 3))
   \<and> mean_class_rate [0, 2] [0, 2] = 1
   \<and> average_accuracy [0, 2] [0, 2] \<noteq> Inr (Finite (mean_class_rate [0, 2] [0, 2]))"
  by (simp add: average_accuracy_def bincount_def broadcast_def mean_class_rate_def class_rate_def
      upt_conv_Cons)


section \<open>Properties of the learning-rate decay\<close>

lemma decay_times_total:
  assumes "0 < m" "n \<noteq> 0"
  shows "1 + (1 / m - 1) / n * n = 1 / (m::real)"
  using assms by simp

text \<open>
  Claim C4, as amended. When \<^verbatim>\<open>max_decay\<close> is positive, the decay factor is
  \<open>(1 / max_decay - 1) / N\<close>, where \<open>N\<close> is the number of whole batches per epoch
  (\<^verbatim>\<open>num_train // batch_size\<close>) times the number of epochs: the explicit override when it is
  given and not 0, the schedule's count otherwise; a zero \<open>N\<close> or batch size raises
  ZeroDivisionError. Hence \<open>1 + decay * N = 1 / max_decay\<close>, and under the optimizer's rule
  the learning rate after \<open>N\<close> updates is \<open>max_decay\<close> times its initial value (for
  \<open>max_decay < 1\<close>). When \<^verbatim>\<open>max_decay\<close> is not positive, the decay factor is 0.
\<close>

theorem compute_decay_reaches_max_decay:
  "(if max_decay a > 0 then
      if batch_size a = 0 \<or> total_batches a dg num_epochs = 0
      then compute_decay a dg num_epochs = Inl ZeroDivisionError
      else (let d = (1 / max_decay a - 1) / real_of_int (total_batches a dg num_epochs) in
              compute_decay a dg num_epochs = Inr d
              \<and> 1 + d * real_of_int (total_batches a dg num_epochs) = 1 / max_decay a
              \<and> (if max_decay a < 1 \<and> 0 < total_batches a dg num_epochs
                  then sgd_rate lr d (nat (total_batches a dg num_epochs)) = max_decay a * lr
                  else True))
    else compute_decay a dg num_epochs = Inr 0)
   \<and> train_epochs a num_epochs =
       (if epochs a = None \<or> epochs a = Some 0 then num_epochs else the (epochs a))"
proof -
  have ep: "train_epochs a num_epochs =
       (if epochs a = None \<or> epochs a = Some 0 then num_epochs else the (epochs a))"
    by (auto simp: train_epochs_def split: option.splits)
  show ?thesis
  proof (cases "max_decay a > 0")
    case False
    with ep show ?thesis by (simp add: compute_decay_def)
  next
    case pos: True
    show ?thesis
    proof (cases "batch_size a = 0 \<or> total_batches a dg num_epochs = 0")
      case True
      with pos ep show ?thesis by (auto simp: compute_decay_def)
    next
      case False
      let ?n = "total_batches a dg num_epochs"
      let ?d = "(1 / max_decay a - 1) / real_of_int ?n"
      from False have n0: "real_of_int ?n \<noteq> 0" by simp
      have d: "compute_decay a dg num_epochs = Inr ?d"
        using pos False by (simp add: compute_decay_def)
      have eq: "1 + ?d * real_of_int ?n = 1 / max_decay a"
        using pos n0 by (rule decay_times_total)
      have rate: "sgd_rate lr ?d (nat ?n) = max_decay a * lr"
        if "max_decay a < 1" "0 < ?n"
      proof -
        from that pos have "0 < 1 / max_decay a - 1" by simp
        with that(2) have dpos: "0 < ?d" by simp
        from that(2) have "real (nat ?n) = real_of_int ?n" by simp
        with eq have "1 + ?d * real (nat ?n) = 1 / max_decay a" by simp
        with dpos pos show ?thesis by (simp add: sgd_rate_def)
      qed
      from pos False d eq rate ep show ?thesis by (auto simp: Let_def)
    qed
  qed
qed

theorem compute_decay_reaches_max_decay_witness:
  "compute_decay
     \<lparr>class_list = None, embed_dim = 100, centroids = None, max_decay = 1 / 2, epochs = Some 3,
      batch_size = 10, finetune = None, finetune_init = 3, sgd_lr = 1 / 10, model_dump = None,
      weight_dump = None, feature_dump = None\<rparr>
     \<lparr>num_classes = 3, num_train = 105, num_test = 9, labels_test = [0, 1, 2]\<rparr> 7 = Inr (1 / 30)
   \<and> sgd_rate (1 / 10) (1 / 30) 30 = 1 / 20"
  using compute_decay_reaches_max_decay [where lr = "1 / 10" and num_epochs = 7 and a =
     "\<lparr>class_list = None, embed_dim = 100, centroids = None, max_decay = 1 / 2, epochs = Some 3,
      batch_size = 10, finetune = None, finetune_init = 3, sgd_lr = 1 / 10, model_dump = None,
      weight_dump = None, feature_dump = None\<rparr>"
     and dg = "\<lparr>num_classes = 3, num_train = 105, num_test = 9, labels_test = [0, 1, 2]\<rparr>"]
  by (simp add: total_batches_def train_epochs_def Let_def)

text \<open>
  Claim C4 as stated fails: with \<^verbatim>\<open>max_decay = 0.5\<close>, 10 batches and one epoch, the
  learning rate 0.1 ends at 0.05, which is \<open>max_decay\<close> times the initial value; the
  claim's \<open>1 / max_decay\<close> of the initial value would be 0.2.
\<close>

theorem decay_ends_at_max_decay_not_inverse:
  "compute_decay
     \<lparr>class_list = None, embed_dim = 100, centroids = None, max_decay = 1 / 2, epochs = None,
      batch_size = 10, finetune = None, finetune_init = 3, sgd_lr = 1 / 10, model_dump = None,
      weight_dump = None, feature_dump = None\<rparr>
     \<lparr>num_classes = 3, num_train = 100, num_test = 9, labels_test = [0, 1, 2]\<rparr> 1 = Inr (1 / 10)
   \<and> sgd_rate (1 / 10) (1 / 10) 10 = 1 / 20
   \<and> sgd_rate (1 / 10) (1 / 10) 10 \<noteq> (1 / 10) / (1 / 2)"
  by (simp add: compute_decay_def total_batches_def train_epochs_def sgd_rate_def)


section \<open>Properties of training\<close>

lemma length_train_step: "length (train_step upd ls) = length ls"
  by (simp add: train_step_def)

lemma length_fit: "length (fit upd k ls) = length ls"
  by (induction k) (simp_all add: length_train_step)

lemma train_step_nth:
  "i < length ls \<Longrightarrow>
     train_step upd ls ! i = (if trainable (ls ! i) then (ls ! i)\<lparr>weights := upd ls (ls ! i)\<rparr> else ls ! i)"
  by (simp add: train_step_def)

lemma fit_nth_flags:
  "i < length ls \<Longrightarrow>
     lname (fit upd k ls ! i) = lname (ls ! i) \<and> trainable (fit upd k ls ! i) = trainable (ls ! i)"
  by (induction k) (simp_all add: train_step_nth length_fit)

lemma fit_nth_frozen:
  "i < length ls \<Longrightarrow> \<not> trainable (ls ! i) \<Longrightarrow> fit upd k ls ! i = ls ! i"
  by (induction k) (simp_all add: train_step_nth length_fit fit_nth_flags)

lemma get_layer_fit_frozen:
  assumes "get_layer ls name = Some l" "\<not> trainable l"
  shows "get_layer (fit upd k ls) name = Some l"
proof -
  from assms(1) obtain i where i: "i < length ls" "lname (ls ! i) = name" "l = ls ! i"
    and first: "\<forall>j<i. lname (ls ! j) \<noteq> name"
    unfolding get_layer_def find_Some_iff by blast
  have "i < length (fit upd k ls)" using i(1) by (simp add: length_fit)
  moreover have "lname (fit upd k ls ! i) = name" using i by (simp add: fit_nth_flags)
  moreover have "l = fit upd k ls ! i" using i assms(2) by (simp add: fit_nth_frozen)
  moreover have "\<forall>j<i. lname (fit upd k ls ! j) \<noteq> name"
    using first i(1) by (simp add: fit_nth_flags)
  ultimately show ?thesis
    unfolding get_layer_def find_Some_iff by blast
qed

lemma find_append_None: "find P xs = None \<Longrightarrow> find P (xs @ ys) = find P ys"
  by (induction xs) (simp_all split: if_splits)

lemma get_layer_fixed_centroids:
  assumes "center_loss_model init uid base (Ndarray c) = Inr m"
  shows "get_layer (layers m) ''cls_centroids'' =
           Some \<lparr>lname = ''cls_centroids'', trainable = False, weights = [c]\<rparr>"
proof -
  from assms have ls: "layers m = base_layers base @ head_layers init uid (Ndarray c)"
    and d: "distinct (map lname (base_layers base @ head_layers init uid (Ndarray c)))"
    by (auto simp: center_loss_model_def Let_def split: option.splits if_splits sum.splits)
  have "''cls_centroids'' \<in> set (map lname (head_layers init uid (Ndarray c)))"
    by (simp add: head_layers_def)
  with d have "''cls_centroids'' \<notin> set (map lname (base_layers base))"
    by auto
  then have "find (\<lambda>l. lname l = ''cls_centroids'') (base_layers base) = None"
    unfolding find_None_iff by force
  then show ?thesis
    by (simp add: ls get_layer_def find_append_None head_layers_def)
qed

lemma fixed_centroids_frozen_without_finetune:
  assumes "center_loss_model init uid base (Ndarray c) = Inr m"
    and "\<not> truthy (finetune a)"
    and "train_model tr a dg num_epochs m = Inr (m', ev)"
  shows "centroid_table (layers m) = Some c \<and> centroid_table (layers m') = Some c"
proof -
  let ?l = "\<lparr>lname = ''cls_centroids'', trainable = False, weights = [c]\<rparr>"
  have g: "get_layer (layers m) ''cls_centroids'' = Some ?l"
    using assms(1) by (rule get_layer_fixed_centroids)
  from assms(2,3) obtain decay where
    "layers m' = fit (sgd tr (sgd_lr a) decay)
        (nat (train_epochs a num_epochs) * steps_per_epoch tr) (layers m)"
    by (auto simp: train_model_def finetune_phase_def full_train_def fit_generator_def
        split: sum.splits)
  then have "get_layer (layers m') ''cls_centroids'' = Some ?l"
    using get_layer_fit_frozen [OF g] by simp
  with g show ?thesis by (simp add: centroid_table_def)
qed


section \<open>Properties of the model builder\<close>

lemma sum_sq_diff:
  assumes "length v = d" "length c = d"
  shows "sum_list (map (\<lambda>z. z ^ 2) (map2 (\<lambda>x y. x - y) v c)) / 2 = half_sq_dist d v (c :: real list)"
proof -
  have "sum_list (map (\<lambda>z. z ^ 2) (map2 (\<lambda>x y. x - y) v c))
      = (\<Sum>i = 0..<d. map (\<lambda>z. z ^ 2) (map2 (\<lambda>x y. x - y) v c) ! i)"
    using assms by (simp add: sum_list_sum_nth)
  also have "\<dots> = (\<Sum>i = 0..<d. (v ! i - c ! i) ^ 2)"
    using assms by (intro sum.cong refl) simp
  finally show ?thesis
    by (simp add: half_sq_dist_def atLeast0LessThan)
qed

lemma center_loss_rows:
  assumes "length emb = length lab"
    and "list_all (\<lambda>v. length v = d) emb"
    and "list_all (\<lambda>r. length r = 1 \<and> hd r < length t) lab"
    and "list_all (\<lambda>r. length r = d) t"
  shows "half_sum_square (subtract (new_axis emb) (map (map (\<lambda>l. t ! l)) lab))
       = map2 (\<lambda>v r. [half_sq_dist d v (t ! hd r)]) emb lab"
  using assms
proof (induction emb lab rule: list_induct2)
  case Nil
  then show ?case by (simp add: half_sum_square_def subtract_def new_axis_def)
next
  case (Cons v emb r lab)
  from Cons.prems obtain l where r: "r = [l]" and l: "l < length t"
    by (cases r) auto
  from l Cons.prems(3) have "length (t ! l) = d"
    by (simp add: list_all_length)
  moreover from Cons.prems have "length v = d" by simp
  ultimately have "sum_list (map (\<lambda>z. z ^ 2) (map2 (\<lambda>x y. x - y) v (t ! l))) / 2
      = half_sq_dist d v (t ! l)"
    by (intro sum_sq_diff)
  moreover have "half_sum_square (subtract (new_axis emb) (map (map (\<lambda>l. t ! l)) lab))
       = map2 (\<lambda>v r. [half_sq_dist d v (t ! hd r)]) emb lab"
    using Cons.prems by (intro Cons.IH) simp_all
  ultimately show ?case
    using r by (simp add: half_sum_square_def subtract_def new_axis_def)
qed

lemma center_loss_output_eq:
  assumes "length emb = length lab"
    and "list_all (\<lambda>v. length v = ncols t) emb"
    and "list_all (\<lambda>r. length r = 1 \<and> hd r < length t) lab"
    and "list_all (\<lambda>r. length r = ncols t) t"
  shows "center_loss_output t emb lab = Inr (map2 (\<lambda>v r. [half_sq_dist (ncols t) v (t ! hd r)]) emb lab)"
proof -
  have one: "list_all (\<lambda>r. length r = 1) lab"
    using assms(3) by (simp add: list_all_iff)
  have "list_all (list_all (\<lambda>l. l < length t)) lab"
    unfolding list_all_iff
  proof
    fix r assume "r \<in> set lab"
    with assms(3) have "length r = 1" "hd r < length t" by (auto simp: list_all_iff)
    then show "\<forall>l\<in>set r. l < length t" by (cases r) auto
  qed
  then have "embedding_lookup t lab = Inr (map (map (\<lambda>l. t ! l)) lab)"
    by (simp add: embedding_lookup_def)
  with assms one show ?thesis
    by (simp add: center_loss_output_def center_loss_rows)
qed

lemma batch_shape_rows:
  "emb \<noteq> [] \<Longrightarrow> length emb = length lab \<Longrightarrow> batch_shape (map2 (\<lambda>v r. [f v r]) emb lab) = [length emb, 1]"
  by (cases emb; cases lab) (simp_all add: batch_shape_def)

lemma center_loss_model_shapes:
  assumes "center_loss_model init uid base cents = Inr m"
  shows "output_shapes m = [[None, Some (num_classes_of cents)], [None, Some 1]]"
  using assms
  by (auto simp: center_loss_model_def Let_def dense_shape_def embedding_shape_def
      new_axis_shape_def subtract_shape_def sum_last_shape_def
      split: option.splits if_splits sum.splits)


text \<open>
  Claim C2, as amended. A model built by \<^verbatim>\<open>center_loss_model\<close> has exactly two outputs, of
  the static shapes \<open>(batch, num_classes)\<close> and \<open>(batch, 1)\<close>. For a non-empty batch of
  embedding vectors and labels inside the centroid table, the second output holds for each
  example the one-element row with half the sum, over the embedding dimension, of the
  squared differences between the embedding and the centroid row that the label selects.
\<close>

theorem center_loss_model_outputs:
  assumes "center_loss_model init uid base cents = Inr m"
    and "centroid_table (layers m) = Some t"
    and "list_all (\<lambda>r. length r = ncols t) t"
    and "length emb = length lab"
    and "list_all (\<lambda>v. length v = ncols t) emb"
    and "list_all (\<lambda>r. length r = 1 \<and> hd r < length t) lab"
    and "emb \<noteq> []"
  shows "length (output_shapes m) = 2
       \<and> output_shapes m ! 0 = [None, Some (num_classes_of cents)]
       \<and> output_shapes m ! 1 = [None, Some 1]
       \<and> model_center_loss (layers m) emb lab =
           Inr (map2 (\<lambda>v r. [half_sq_dist (ncols t) v (t ! hd r)]) emb lab)
       \<and> batch_shape (map2 (\<lambda>v r. [half_sq_dist (ncols t) v (t ! hd r)]) emb lab) = [length emb, 1]"
proof -
  have "output_shapes m = [[None, Some (num_classes_of cents)], [None, Some 1]]"
    using assms(1) by (rule center_loss_model_shapes)
  moreover have "model_center_loss (layers m) emb lab =
           Inr (map2 (\<lambda>v r. [half_sq_dist (ncols t) v (t ! hd r)]) emb lab)"
    using assms(2-6) by (simp add: model_center_loss_def center_loss_output_eq)
  moreover have "batch_shape (map2 (\<lambda>v r. [half_sq_dist (ncols t) v (t ! hd r)]) emb lab)
      = [length emb, 1]"
    using assms(7,4) by (rule batch_shape_rows)
  ultimately show ?thesis by simp
qed

lemma example_model:
  "center_loss_model (\<lambda>name. []) (\<lambda>prefix. ''1'')
     \<lparr>base_layers = [\<lparr>lname = ''embedding'', trainable = True, weights = [[[1, 0], [0, 1]]]\<rparr>],
      output_dim = Some 2\<rparr>
     (Ndarray [[1, 2], [3, 5], [0, 0]])
   = Inr \<lparr>layers =
            [\<lparr>lname = ''embedding'', trainable = True, weights = [[[1, 0], [0, 1]]]\<rparr>,
             \<lparr>lname = ''activation_1'', trainable = True, weights = []\<rparr>,
             \<lparr>lname = ''embedding_bn'', trainable = True, weights = []\<rparr>,
             \<lparr>lname = ''prob'', trainable = True, weights = []\<rparr>,
             \<lparr>lname = ''labels'', trainable = False, weights = []\<rparr>,
             \<lparr>lname = ''cls_centroids'', trainable = False, weights = [[[1, 2], [3, 5], [0, 0]]]\<rparr>,
             \<lparr>lname = ''lambda_1'', trainable = True, weights = []\<rparr>,
             \<lparr>lname = ''center_dist'', trainable = True, weights = []\<rparr>,
             \<lparr>lname = ''center_loss'', trainable = True, weights = []\<rparr>],
          n_trunk = 1,
          output_shapes = [[None, Some 3], [None, Some 1]]\<rparr>"
  by (simp add: center_loss_model_def head_layers_def num_classes_of_def Let_def dense_shape_def
      embedding_shape_def new_axis_shape_def subtract_shape_def sum_last_shape_def)

theorem center_loss_model_outputs_witness:
  "model_center_loss
     [\<lparr>lname = ''embedding'', trainable = True, weights = [[[1, 0], [0, 1]]]\<rparr>,
      \<lparr>lname = ''activation_1'', trainable = True, weights = []\<rparr>,
      \<lparr>lname = ''embedding_bn'', trainable = True, weights = []\<rparr>,
      \<lparr>lname = ''prob'', trainable = True, weights = []\<rparr>,
      \<lparr>lname = ''labels'', trainable = False, weights = []\<rparr>,
      \<lparr>lname = ''cls_centroids'', trainable = False, weights = [[[1, 2], [3, 5], [0, 0]]]\<rparr>,
      \<lparr>lname = ''lambda_1'', trainable = True, weights = []\<rparr>,
      \<lparr>lname = ''center_dist'', trainable = True, weights = []\<rparr>,
      \<lparr>lname = ''center_loss'', trainable = True, weights = []\<rparr>]
     [[1, 0], [4, 4]] [[0], [1]] = Inr [[2], [1]]"
  using center_loss_model_outputs [OF example_model, of "[[1, 2], [3, 5], [0, 0]]" "[[1, 0], [4, 4]]" "[[0], [1]]"]
  by (simp add: centroid_table_def get_layer_def ncols_def half_sq_dist_def lessThan_Suc eval_nat_numeral)

text \<open>
  Claim C2 as stated fails on the shape of the second output: the label input has the
  shape \<open>(batch, 1)\<close>, the lookup gives \<open>(batch, 1, embed_dim)\<close>, and the sum over the last
  axis leaves \<open>(batch, 1)\<close>, not \<open>(batch,)\<close>.
\<close>

theorem center_loss_output_rank_two:
  "(case center_loss_model (\<lambda>name. []) (\<lambda>prefix. ''1'')
           \<lparr>base_layers = [\<lparr>lname = ''embedding'', trainable = True, weights = [[[1, 0], [0, 1]]]\<rparr>],
            output_dim = Some 2\<rparr>
           (Count 3) of
      Inl e \<Rightarrow> False
    | Inr m \<Rightarrow> output_shapes m ! 1 = [None, Some 1] \<and> output_shapes m ! 1 \<noteq> [None])
   \<and> center_loss_output [[1, 2], [3, 5], [0, 0]] [[1, 0], [4, 4]] [[0], [1]] = Inr [[2], [1]]
   \<and> batch_shape [[2 :: real], [1]] = [2, 1]"
  by (simp add: center_loss_model_def head_layers_def num_classes_of_def Let_def dense_shape_def
      embedding_shape_def new_axis_shape_def subtract_shape_def sum_last_shape_def
      center_loss_output_def embedding_lookup_def ncols_def half_sum_square_def subtract_def
      new_axis_def batch_shape_def)


section \<open>Properties of the finetune phase\<close>

lemma pick_shapes:
  "length olds = length ws \<Longrightarrow>
     map array_shape (map2 (\<lambda>old new. if array_shape new = array_shape old then new else old) olds ws)
       = map array_shape olds"
  by (induction olds ws rule: list_induct2) simp_all

lemma pick_same:
  "length olds = length ws \<Longrightarrow> map array_shape ws = map array_shape olds \<Longrightarrow>
     map2 (\<lambda>old new. if array_shape new = array_shape old then new else old) olds ws = ws"
  by (induction olds ws rule: list_induct2) simp_all

lemma load_layer_flags:
  "lname (load_layer ws l) = lname l \<and> trainable (load_layer ws l) = trainable l"
  by (simp add: load_layer_def)

lemma load_layer_shapes:
  "map array_shape (weights (load_layer ws l)) = map array_shape (weights l)"
  using pick_shapes [of "weights l" ws] by (simp add: load_layer_def)

lemma load_layer_same:
  assumes "map array_shape ws = map array_shape (weights l)"
  shows "weights (load_layer ws l) = ws"
proof -
  from assms have "length ws = length (weights l)" by (metis length_map)
  with assms pick_same [of "weights l" ws] show ?thesis by (simp add: load_layer_def)
qed

lemma load_nth:
  "i < length ls \<Longrightarrow>
     load_weights_by_name wfile ls ! i =
       (case map_of wfile (lname (ls ! i)) of None \<Rightarrow> ls ! i | Some ws \<Rightarrow> load_layer ws (ls ! i))"
  by (simp add: load_weights_by_name_def)

lemma length_load: "length (load_weights_by_name wfile ls) = length ls"
  by (simp add: load_weights_by_name_def)

lemma load_nth_flags:
  "i < length ls \<Longrightarrow>
     lname (load_weights_by_name wfile ls ! i) = lname (ls ! i)
     \<and> trainable (load_weights_by_name wfile ls ! i) = trainable (ls ! i)
     \<and> map array_shape (weights (load_weights_by_name wfile ls ! i)) = map array_shape (weights (ls ! i))"
  by (simp add: load_nth load_layer_flags load_layer_shapes split: option.splits)

lemma set_finetune_trainable_nth:
  assumes "0 < n_trunk m" "n_trunk m \<le> length (layers m)"
  shows "\<exists>m1. set_finetune_trainable m = Inr m1
           \<and> length (layers m1) = length (layers m)
           \<and> n_trunk m1 = n_trunk m
           \<and> (\<forall>i<length (layers m).
                 lname (layers m1 ! i) = lname (layers m ! i)
               \<and> weights (layers m1 ! i) = weights (layers m ! i)
               \<and> trainable (layers m1 ! i) =
                   (lname (layers m ! i) \<in> set finetune_names \<or> i = n_trunk m - 1))"
  using assms by (auto simp: set_finetune_trainable_def Let_def nth_list_update)

lemma activation_not_finetuned: "''activation_'' @ s \<notin> set finetune_names"
  by (simp add: finetune_names_def)


lemma load_layer_weights:
  "weights (load_layer ws l) =
     (if length ws = length (weights l)
      then map2 (\<lambda>old new. if array_shape new = array_shape old then new else old) (weights l) ws
      else weights l)"
  by (simp add: load_layer_def)

lemma train_step_trainable:
  "i < length ls \<Longrightarrow> trainable (ls ! i) \<Longrightarrow> weights (train_step upd ls ! i) = upd ls (ls ! i)"
  by (simp add: train_step_nth)

lemma fit_last_step:
  assumes "i < length ls" "trainable (ls ! i)"
  shows "weights (fit upd (Suc k) ls ! i) = upd k (fit upd k ls) (fit upd k ls ! i)"
proof -
  have "i < length (fit upd k ls)" using assms(1) by (simp add: length_fit)
  moreover have "trainable (fit upd k ls ! i)" using assms by (simp add: fit_nth_flags)
  ultimately show ?thesis by (simp add: train_step_trainable)
qed

text \<open>
  Claim C7, as amended. The finetune phase is skipped when \<^verbatim>\<open>args.finetune\<close> is absent or
  empty. Otherwise (the weight file readable, the embedding network not without layers) it
  loads the weights by layer name with \<^verbatim>\<open>skip_mismatch\<close>: a layer that the file names
  takes each array of the file whose shape matches (all of them when all shapes match) and
  keeps its own where the shape or the number of arrays differs, a layer that the file
  does not name keeps its weights, and nothing raises. It then makes trainable exactly the
  layers named \<^verbatim>\<open>embedding\<close>, \<^verbatim>\<open>embedding_bn\<close>, \<^verbatim>\<open>prob\<close>, \<^verbatim>\<open>cls_centroids\<close> and the
  last layer of the embedding network, and freezes every other layer; the ReLU activation
  layer, which Keras names \<^verbatim>\<open>activation_N\<close>, is among the frozen ones. It compiles and
  trains for \<^verbatim>\<open>args.finetune_init\<close> epochs: the frozen layers keep their weights, the
  trainable ones take what the optimizer's last update gives them. At the end every layer
  is trainable.
\<close>

theorem finetune_phase_steps:
  "(\<not> truthy (finetune a) \<longrightarrow> finetune_phase tr a m = Inr (m, []))
   \<and> (truthy (finetune a) \<and> h5_read tr (the (finetune a)) = Inr wfile
        \<and> 0 < n_trunk m \<and> n_trunk m \<le> length (layers m) \<longrightarrow>
      (\<exists>m1 m2.
          set_finetune_trainable (m\<lparr>layers := load_weights_by_name wfile (layers m)\<rparr>) = Inr m1
        \<and> map lname (layers m1) = map lname (layers m)
        \<and> (\<forall>i<length (layers m).
              trainable (layers m1 ! i) =
                (lname (layers m ! i) \<in> set finetune_names \<or> i = n_trunk m - 1)
            \<and> map array_shape (weights (layers m1 ! i)) = map array_shape (weights (layers m ! i))
            \<and> (map_of wfile (lname (layers m ! i)) = None \<longrightarrow>
                 weights (layers m1 ! i) = weights (layers m ! i)))
        \<and> (\<forall>i<length (layers m). \<forall>ws.
              map_of wfile (lname (layers m ! i)) = Some ws \<longrightarrow>
                weights (layers m1 ! i) =
                  (if length ws = length (weights (layers m ! i))
                   then map2 (\<lambda>old new. if array_shape new = array_shape old then new else old)
                          (weights (layers m ! i)) ws
                   else weights (layers m ! i))
              \<and> (map array_shape ws = map array_shape (weights (layers m ! i)) \<longrightarrow>
                   weights (layers m1 ! i) = ws))
        \<and> finetune_phase tr a m =
            Inr (m2,
                 [PrintText (''Loading pre-trained weights from '' @ the (finetune a)),
                  LoadWeights (the (finetune a)) True True,
                  PrintText ''Pre-training new layers'',
                  Compile (sgd_lr a) 0,
                  FitGenerator (finetune_init a),
                  PrintText ''Full model training''])
        \<and> layers m2 = map (\<lambda>l. l\<lparr>trainable := True\<rparr>)
              (fit (sgd tr (sgd_lr a) 0) (nat (finetune_init a) * steps_per_epoch tr) (layers m1))
        \<and> map lname (layers m2) = map lname (layers m)
        \<and> list_all trainable (layers m2)
        \<and> (\<forall>i<length (layers m).
              \<not> trainable (layers m1 ! i) \<longrightarrow> weights (layers m2 ! i) = weights (layers m1 ! i))
        \<and> (\<forall>i<length (layers m). \<forall>k.
              trainable (layers m1 ! i) \<and> nat (finetune_init a) * steps_per_epoch tr = Suc k \<longrightarrow>
                weights (layers m2 ! i) =
                  sgd tr (sgd_lr a) 0 k (fit (sgd tr (sgd_lr a) 0) k (layers m1))
                    (fit (sgd tr (sgd_lr a) 0) k (layers m1) ! i))
        \<and> (nat (finetune_init a) * steps_per_epoch tr = 0 \<longrightarrow>
              map weights (layers m2) = map weights (layers m1))))
   \<and> ''activation_'' @ s \<notin> set finetune_names"
  (is "?skip \<and> (?entered \<longrightarrow> ?steps) \<and> ?act")
proof (intro conjI impI)
  show ?act
    by (rule activation_not_finetuned)
next
  assume "\<not> truthy (finetune a)"
  then show "finetune_phase tr a m = Inr (m, [])"
    by (simp add: finetune_phase_def)
next
  assume h: ?entered
  let ?L = "load_weights_by_name wfile (layers m)"
  let ?m0 = "m\<lparr>layers := ?L\<rparr>"
  let ?upd = "sgd tr (sgd_lr a) 0"
  let ?k = "nat (finetune_init a) * steps_per_epoch tr"
  from h obtain path where path: "finetune a = Some path" "path \<noteq> []"
    by (auto simp: truthy_def split: option.splits)
  have "0 < n_trunk ?m0" "n_trunk ?m0 \<le> length (layers ?m0)"
    using h by (simp_all add: length_load)
  from set_finetune_trainable_nth [OF this] obtain m1 where
    m1: "set_finetune_trainable ?m0 = Inr m1"
    and len1: "length (layers m1) = length (layers m)"
    and nth1: "\<forall>i<length (layers m).
                 lname (layers m1 ! i) = lname (?L ! i)
               \<and> weights (layers m1 ! i) = weights (?L ! i)
               \<and> trainable (layers m1 ! i) = (lname (?L ! i) \<in> set finetune_names \<or> i = n_trunk m - 1)"
    by (auto simp: length_load)
  define m2 where "m2 = set_all_trainable (fit_generator ?upd (steps_per_epoch tr) (finetune_init a) m1)"
  have l2: "layers m2 = map (\<lambda>l. l\<lparr>trainable := True\<rparr>) (fit ?upd ?k (layers m1))"
    by (simp add: m2_def set_all_trainable_def fit_generator_def)
  have names1: "map lname (layers m1) = map lname (layers m)"
    using len1 nth1 by (intro nth_equalityI) (simp_all add: load_nth_flags)
  have w1: "weights (layers m1 ! i) = weights (?L ! i)" if "i < length (layers m)" for i
    using that nth1 by blast
  have flags1: "trainable (layers m1 ! i) = (lname (layers m ! i) \<in> set finetune_names \<or> i = n_trunk m - 1)
            \<and> map array_shape (weights (layers m1 ! i)) = map array_shape (weights (layers m ! i))
            \<and> (map_of wfile (lname (layers m ! i)) = None \<longrightarrow>
                 weights (layers m1 ! i) = weights (layers m ! i))"
    if "i < length (layers m)" for i
  proof -
    from that nth1 have a: "lname (layers m1 ! i) = lname (?L ! i)"
      "weights (layers m1 ! i) = weights (?L ! i)"
      "trainable (layers m1 ! i) = (lname (?L ! i) \<in> set finetune_names \<or> i = n_trunk m - 1)"
      by blast+
    note b = load_nth_flags [OF that, of wfile]
    have c: "?L ! i = layers m ! i" if "map_of wfile (lname (layers m ! i)) = None"
      using load_nth [OF \<open>i < length (layers m)\<close>, of wfile] that by simp
    from a b c show ?thesis by simp
  qed
  have loaded: "weights (layers m1 ! i) =
                  (if length ws = length (weights (layers m ! i))
                   then map2 (\<lambda>old new. if array_shape new = array_shape old then new else old)
                          (weights (layers m ! i)) ws
                   else weights (layers m ! i))
              \<and> (map array_shape ws = map array_shape (weights (layers m ! i)) \<longrightarrow>
                   weights (layers m1 ! i) = ws)"
    if "i < length (layers m)" "map_of wfile (lname (layers m ! i)) = Some ws" for i ws
  proof -
    have "?L ! i = load_layer ws (layers m ! i)"
      using load_nth [OF that(1), of wfile] that(2) by simp
    then have "weights (layers m1 ! i) = weights (load_layer ws (layers m ! i))"
      using w1 [OF that(1)] by simp
    then show ?thesis
      by (simp only: load_layer_weights) (simp add: load_layer_same load_layer_weights [symmetric])
  qed
  have phase: "finetune_phase tr a m =
            Inr (m2,
                 [PrintText (''Loading pre-trained weights from '' @ the (finetune a)),
                  LoadWeights (the (finetune a)) True True,
                  PrintText ''Pre-training new layers'',
                  Compile (sgd_lr a) 0,
                  FitGenerator (finetune_init a),
                  PrintText ''Full model training''])"
    using h path m1 by (simp add: finetune_phase_def m2_def)
  have names2: "map lname (layers m2) = map lname (layers m)"
  proof -
    have "map lname (layers m2) = map lname (fit ?upd ?k (layers m1))"
      by (simp add: l2 comp_def)
    also have "\<dots> = map lname (layers m1)"
      by (intro nth_equalityI) (simp_all add: length_fit fit_nth_flags)
    finally show ?thesis using names1 by simp
  qed
  have all2: "list_all trainable (layers m2)"
    by (simp add: l2 list_all_iff)
  have frozen: "weights (layers m2 ! i) = weights (layers m1 ! i)"
    if "i < length (layers m)" "\<not> trainable (layers m1 ! i)" for i
    using that len1 by (simp add: l2 length_fit fit_nth_frozen)
  have trained: "weights (layers m2 ! i) = ?upd k (fit ?upd k (layers m1)) (fit ?upd k (layers m1) ! i)"
    if "i < length (layers m)" "trainable (layers m1 ! i) \<and> ?k = Suc k" for i k
  proof -
    from that len1 have i: "i < length (layers m1)" "trainable (layers m1 ! i)" "?k = Suc k"
      by simp_all
    have "i < length (fit ?upd ?k (layers m1))"
      using i(1) by (simp only: length_fit)
    then have "weights (layers m2 ! i) = weights (fit ?upd ?k (layers m1) ! i)"
      by (simp add: l2)
    then have "weights (layers m2 ! i) = weights (fit ?upd (Suc k) (layers m1) ! i)"
      by (simp only: i(3))
    also have "\<dots> = ?upd k (fit ?upd k (layers m1)) (fit ?upd k (layers m1) ! i)"
      using i(1,2) by (rule fit_last_step)
    finally show ?thesis .
  qed
  have untrained: "map weights (layers m2) = map weights (layers m1)" if "?k = 0"
  proof -
    have "fit ?upd ?k (layers m1) = layers m1"
      by (simp only: that fit.simps)
    then show ?thesis by (simp add: l2 comp_def)
  qed
  have F: "\<forall>i<length (layers m).
              trainable (layers m1 ! i) =
                (lname (layers m ! i) \<in> set finetune_names \<or> i = n_trunk m - 1)
            \<and> map array_shape (weights (layers m1 ! i)) = map array_shape (weights (layers m ! i))
            \<and> (map_of wfile (lname (layers m ! i)) = None \<longrightarrow>
                 weights (layers m1 ! i) = weights (layers m ! i))"
    using flags1 by blast
  have Ld: "\<forall>i<length (layers m). \<forall>ws.
              map_of wfile (lname (layers m ! i)) = Some ws \<longrightarrow>
                weights (layers m1 ! i) =
                  (if length ws = length (weights (layers m ! i))
                   then map2 (\<lambda>old new. if array_shape new = array_shape old then new else old)
                          (weights (layers m ! i)) ws
                   else weights (layers m ! i))
              \<and> (map array_shape ws = map array_shape (weights (layers m ! i)) \<longrightarrow>
                   weights (layers m1 ! i) = ws)"
    using loaded by blast
  have Fr: "\<forall>i<length (layers m).
              \<not> trainable (layers m1 ! i) \<longrightarrow> weights (layers m2 ! i) = weights (layers m1 ! i)"
    using frozen by blast
  have Tr: "\<forall>i<length (layers m). \<forall>k.
              trainable (layers m1 ! i) \<and> nat (finetune_init a) * steps_per_epoch tr = Suc k \<longrightarrow>
                weights (layers m2 ! i) =
                  sgd tr (sgd_lr a) 0 k (fit (sgd tr (sgd_lr a) 0) k (layers m1))
                    (fit (sgd tr (sgd_lr a) 0) k (layers m1) ! i)"
    using trained by blast
  have Un: "nat (finetune_init a) * steps_per_epoch tr = 0 \<longrightarrow>
              map weights (layers m2) = map weights (layers m1)"
    using untrained by blast
  show ?steps
    by (rule exI [of _ m1], rule exI [of _ m2], intro conjI)
      (rule m1 names1 F Ld phase l2 names2 all2 Fr Tr Un)+
qed


theorem finetune_phase_steps_witness:
  "\<exists>m1 m2.
       set_finetune_trainable
         (\<lparr>layers =
             [\<lparr>lname = ''conv'', trainable = True, weights = [[[2]]]\<rparr>,
              \<lparr>lname = ''embedding'', trainable = True, weights = [[[1, 0], [0, 1]]]\<rparr>,
              \<lparr>lname = ''activation_1'', trainable = True, weights = []\<rparr>,
              \<lparr>lname = ''prob'', trainable = True, weights = [[[0, 0], [0, 0]]]\<rparr>],
           n_trunk = 2, output_shapes = [[None, Some 2], [None, Some 1]]\<rparr>
          \<lparr>layers := load_weights_by_name
             [(''embedding'', [[[5, 5], [5, 5]]]), (''prob'', [[[7]]])]
             [\<lparr>lname = ''conv'', trainable = True, weights = [[[2]]]\<rparr>,
              \<lparr>lname = ''embedding'', trainable = True, weights = [[[1, 0], [0, 1]]]\<rparr>,
              \<lparr>lname = ''activation_1'', trainable = True, weights = []\<rparr>,
              \<lparr>lname = ''prob'', trainable = True, weights = [[[0, 0], [0, 0]]]\<rparr>]\<rparr>) = Inr m1
     \<and> map weights (layers m1) = [[[[2]]], [[[5, 5], [5, 5]]], [], [[[0, 0], [0, 0]]]]
     \<and> map trainable (layers m1) = [False, True, False, True]
     \<and> finetune_phase
          \<lparr>sgd = (\<lambda>lr decay t ls l. map (map (map (\<lambda>w. w + 1))) (weights l)),
           steps_per_epoch = 1,
           h5_read = (\<lambda>path. Inr [(''embedding'', [[[5, 5], [5, 5]]]), (''prob'', [[[7]]])])\<rparr>
          \<lparr>class_list = None, embed_dim = 2, centroids = None, max_decay = 0, epochs = Some 1,
           batch_size = 10, finetune = Some ''pretrained.h5'', finetune_init = 3, sgd_lr = 1 / 10,
           model_dump = None, weight_dump = None, feature_dump = None\<rparr>
          \<lparr>layers =
             [\<lparr>lname = ''conv'', trainable = True, weights = [[[2]]]\<rparr>,
              \<lparr>lname = ''embedding'', trainable = True, weights = [[[1, 0], [0, 1]]]\<rparr>,
              \<lparr>lname = ''activation_1'', trainable = True, weights = []\<rparr>,
              \<lparr>lname = ''prob'', trainable = True, weights = [[[0, 0], [0, 0]]]\<rparr>],
           n_trunk = 2, output_shapes = [[None, Some 2], [None, Some 1]]\<rparr>
        = Inr (m2,
               [PrintText ''Loading pre-trained weights from pretrained.h5'',
                LoadWeights ''pretrained.h5'' True True,
                PrintText ''Pre-training new layers'',
                Compile (1 / 10) 0,
                FitGenerator 3,
                PrintText ''Full model training''])
     \<and> map weights (layers m2) = [[[[2]]], [[[8, 8], [8, 8]]], [], [[[3, 3], [3, 3]]]]
     \<and> list_all trainable (layers m2)"
proof -
  let ?tr = "\<lparr>sgd = (\<lambda>lr decay t ls l. map (map (map (\<lambda>w. w + 1))) (weights l)),
           steps_per_epoch = 1,
           h5_read = (\<lambda>path. Inr [(''embedding'', [[[5, 5], [5, 5]]]), (''prob'', [[[7]]])])\<rparr>"
  let ?a = "\<lparr>class_list = None, embed_dim = 2, centroids = None, max_decay = 0, epochs = Some 1,
           batch_size = 10, finetune = Some ''pretrained.h5'', finetune_init = 3, sgd_lr = 1 / 10,
           model_dump = None, weight_dump = None, feature_dump = None\<rparr>"
  let ?m = "\<lparr>layers =
             [\<lparr>lname = ''conv'', trainable = True, weights = [[[2]]]\<rparr>,
              \<lparr>lname = ''embedding'', trainable = True, weights = [[[1, 0], [0, 1]]]\<rparr>,
              \<lparr>lname = ''activation_1'', trainable = True, weights = []\<rparr>,
              \<lparr>lname = ''prob'', trainable = True, weights = [[[0, 0], [0, 0]]]\<rparr>],
           n_trunk = 2, output_shapes = [[None, Some 2], [None, Some 1]]\<rparr>"
  let ?f = "[(''embedding'', [[[5, 5], [5, 5]]]), (''prob'', [[[7::real]]])]"
  have h: "truthy (finetune ?a) \<and> h5_read ?tr (the (finetune ?a)) = Inr ?f
        \<and> 0 < n_trunk ?m \<and> n_trunk ?m \<le> length (layers ?m)"
    by (simp add: truthy_def)
  note t = finetune_phase_steps [where a = ?a and tr = ?tr and m = ?m and wfile = ?f and s = "[]"]
  from t [THEN conjunct2, THEN conjunct1, rule_format, OF h] show ?thesis
  proof (elim exE conjE)
    fix m1 m2
    assume built: "set_finetune_trainable (?m\<lparr>layers := load_weights_by_name ?f (layers ?m)\<rparr>) = Inr m1"
    assume phase: "finetune_phase ?tr ?a ?m =
            Inr (m2,
                 [PrintText (''Loading pre-trained weights from '' @ the (finetune ?a)),
                  LoadWeights (the (finetune ?a)) True True,
                  PrintText ''Pre-training new layers'',
                  Compile (sgd_lr ?a) 0,
                  FitGenerator (finetune_init ?a),
                  PrintText ''Full model training''])"
    assume all2: "list_all trainable (layers m2)"
    assume l2: "layers m2 = map (\<lambda>l. l\<lparr>trainable := True\<rparr>)
              (fit (sgd ?tr (sgd_lr ?a) 0) (nat (finetune_init ?a) * steps_per_epoch ?tr) (layers m1))"
    from built have m1: "layers m1 =
        [\<lparr>lname = ''conv'', trainable = False, weights = [[[2]]]\<rparr>,
         \<lparr>lname = ''embedding'', trainable = True, weights = [[[5, 5], [5, 5]]]\<rparr>,
         \<lparr>lname = ''activation_1'', trainable = False, weights = []\<rparr>,
         \<lparr>lname = ''prob'', trainable = True, weights = [[[0, 0], [0, 0]]]\<rparr>]"
      by (auto simp: set_finetune_trainable_def finetune_names_def load_weights_by_name_def
          load_layer_def array_shape_def ncols_def)
    have w2: "map weights (layers m2) = [[[[2]]], [[[8, 8], [8, 8]]], [], [[[3, 3], [3, 3]]]]"
      by (simp add: l2 m1 train_step_def eval_nat_numeral)
    from built phase all2 m1 w2 show ?thesis by simp
  qed
qed

text \<open>
  Claim C7 as stated fails on the activation layer: on a model that
  \<^verbatim>\<open>center_loss_model\<close> built, the flags after lines 142 to 144 leave \<^verbatim>\<open>activation_1\<close>
  (and the lambda, subtract and input layers) frozen.
\<close>

theorem finetune_freezes_activation:
  "(case center_loss_model (\<lambda>name. []) (\<lambda>prefix. ''1'')
           \<lparr>base_layers = [\<lparr>lname = ''embedding'', trainable = True, weights = [[[1, 0], [0, 1]]]\<rparr>],
            output_dim = Some 2\<rparr>
           (Count 3) of
      Inl e \<Rightarrow> Inl e
    | Inr m \<Rightarrow>
        (case set_finetune_trainable m of
           Inl e \<Rightarrow> Inl e
         | Inr m1 \<Rightarrow> Inr (map (\<lambda>l. (lname l, trainable l)) (layers m1))))
   = Inr [(''embedding'', True), (''activation_1'', False), (''embedding_bn'', True),
          (''prob'', True), (''labels'', False), (''cls_centroids'', True),
          (''lambda_1'', False), (''center_dist'', False), (''center_loss'', False)]"
  by (simp add: center_loss_model_def head_layers_def num_classes_of_def Let_def dense_shape_def
      embedding_shape_def new_axis_shape_def subtract_shape_def sum_last_shape_def
      set_finetune_trainable_def finetune_names_def)


section \<open>Fixed centroids through the run\<close>

text \<open>
  Without the finetune phase, a centroid matrix given to the builder stays the table of
  \<^verbatim>\<open>cls_centroids\<close> through any number of updates, whatever the optimizer does
  (\<open>fixed_centroids_frozen_without_finetune\<close> above).

  Claim C1 fails on a run that goes through the finetune phase: line 143 makes
  \<^verbatim>\<open>cls_centroids\<close> trainable because its name is in the list, and line 155 makes every
  layer trainable for the full training. Here each update adds 1 to every weight of a
  trainable layer; one update of the finetune phase and one of the full training move the
  fixed centroids from \<open>[[1, 2], [3, 5], [0, 0]]\<close> to \<open>[[3, 4], [5, 7], [2, 2]]\<close>.
\<close>

theorem finetune_run_trains_fixed_centroids:
  "(case center_loss_model (\<lambda>name. []) (\<lambda>prefix. ''1'')
           \<lparr>base_layers = [\<lparr>lname = ''embedding'', trainable = True, weights = [[[1, 0], [0, 1]]]\<rparr>],
            output_dim = Some 2\<rparr>
           (Ndarray [[1, 2], [3, 5], [0, 0]]) of
      Inl e \<Rightarrow> None
    | Inr m \<Rightarrow>
        (case train_model
                \<lparr>sgd = (\<lambda>lr decay t ls l. map (map (map (\<lambda>w. w + 1))) (weights l)),
                 steps_per_epoch = 1,
                 h5_read = (\<lambda>path. Inr [])\<rparr>
                \<lparr>class_list = None, embed_dim = 100, centroids = Some ''centroids.pickle'',
                 max_decay = 0, epochs = Some 1, batch_size = 10, finetune = Some ''pretrained.h5'',
                 finetune_init = 1, sgd_lr = 1 / 10, model_dump = None, weight_dump = None,
                 feature_dump = None\<rparr>
                \<lparr>num_classes = 3, num_train = 10, num_test = 3, labels_test = [0, 1, 2]\<rparr>
                1 m of
           Inl e \<Rightarrow> None
         | Inr (m', ev) \<Rightarrow>
             Some (centroid_table (layers m), centroid_table (layers m'),
                   map_option trainable (get_layer (layers m') ''cls_centroids''))))
   = Some (Some [[1, 2], [3, 5], [0, 0]], Some [[3, 4], [5, 7], [2, 2]], Some True)"
  by (simp add: center_loss_model_def head_layers_def num_classes_of_def Let_def dense_shape_def
      embedding_shape_def new_axis_shape_def subtract_shape_def sum_last_shape_def
      train_model_def finetune_phase_def full_train_def truthy_def load_weights_by_name_def
      set_finetune_trainable_def finetune_names_def set_all_trainable_def fit_generator_def
      train_step_def compute_decay_def train_epochs_def centroid_table_def get_layer_def)


section \<open>Properties of the export\<close>

lemma save_model_cases:
  "save_model ex a =
     (if truthy (weight_dump a)
      then SaveWeights (the (weight_dump a)) #
           (case save_weights ex (the (weight_dump a)) of
              None \<Rightarrow> []
            | Some e \<Rightarrow> [PrintText (''An error occurred while saving the model weights: '' @ e)])
      else [])
     @
     (if truthy (model_dump a)
      then SaveModel (the (model_dump a)) #
           (case save ex (the (model_dump a)) of
              None \<Rightarrow> []
            | Some e \<Rightarrow> [PrintText (''An error occurred while saving the model: '' @ e)])
      else [])"
  by (auto simp: save_model_def truthy_def split: option.splits)

lemma outcome_independent_of_saves:
  "snd (evaluate_and_export (ex\<lparr>save_weights := sw, save := sm\<rparr>) a dg evaluation test_pred)
     = snd (evaluate_and_export ex a dg evaluation test_pred)"
  by (auto simp: evaluate_and_export_def Let_def split: sum.splits option.splits)

text \<open>
  Claim C9. Whether the run ends normally does not depend on what the two saves do. The
  evaluation result and the average accuracy are printed before any save is attempted; a
  save that raises is reported with the text of its exception; each save is attempted
  exactly when its own path is given, whatever happened to the other; and without a
  feature dump the run ends normally after the saves.
\<close>

theorem export_failures_do_not_abort:
  "snd (evaluate_and_export (ex\<lparr>save_weights := sw, save := sm\<rparr>) a dg evaluation test_pred)
     = snd (evaluate_and_export ex a dg evaluation test_pred)
   \<and> (average_accuracy test_pred (labels_test dg) = Inr acc \<longrightarrow>
        (\<exists>rest. fst (evaluate_and_export ex a dg evaluation test_pred)
                 = [PrintEvaluation evaluation, PrintAverageAccuracy acc] @ save_model ex a @ rest)
        \<and> (\<not> truthy (feature_dump a) \<longrightarrow>
             evaluate_and_export ex a dg evaluation test_pred
               = ([PrintEvaluation evaluation, PrintAverageAccuracy acc] @ save_model ex a, None)))
   \<and> (truthy (weight_dump a) \<and> save_weights ex (the (weight_dump a)) = Some e \<longrightarrow>
        PrintText (''An error occurred while saving the model weights: '' @ e) \<in> set (save_model ex a))
   \<and> (truthy (model_dump a) \<and> save ex (the (model_dump a)) = Some e \<longrightarrow>
        PrintText (''An error occurred while saving the model: '' @ e) \<in> set (save_model ex a))
   \<and> (SaveWeights p \<in> set (save_model ex a)) = (truthy (weight_dump a) \<and> weight_dump a = Some p)
   \<and> (SaveModel p \<in> set (save_model ex a)) = (truthy (model_dump a) \<and> model_dump a = Some p)"
proof (intro conjI impI)
  show "snd (evaluate_and_export (ex\<lparr>save_weights := sw, save := sm\<rparr>) a dg evaluation test_pred)
     = snd (evaluate_and_export ex a dg evaluation test_pred)"
    by (rule outcome_independent_of_saves)
next
  assume "average_accuracy test_pred (labels_test dg) = Inr acc"
  then show "\<exists>rest. fst (evaluate_and_export ex a dg evaluation test_pred)
                 = [PrintEvaluation evaluation, PrintAverageAccuracy acc] @ save_model ex a @ rest"
    by (auto simp: evaluate_and_export_def Let_def split: option.splits)
next
  assume "average_accuracy test_pred (labels_test dg) = Inr acc" "\<not> truthy (feature_dump a)"
  then show "evaluate_and_export ex a dg evaluation test_pred
               = ([PrintEvaluation evaluation, PrintAverageAccuracy acc] @ save_model ex a, None)"
    by (simp add: evaluate_and_export_def Let_def)
next
  assume "truthy (weight_dump a) \<and> save_weights ex (the (weight_dump a)) = Some e"
  then show "PrintText (''An error occurred while saving the model weights: '' @ e) \<in> set (save_model ex a)"
    by (simp add: save_model_cases)
next
  assume "truthy (model_dump a) \<and> save ex (the (model_dump a)) = Some e"
  then show "PrintText (''An error occurred while saving the model: '' @ e) \<in> set (save_model ex a)"
    by (simp add: save_model_cases)
next
  show "(SaveWeights p \<in> set (save_model ex a)) = (truthy (weight_dump a) \<and> weight_dump a = Some p)"
    by (auto simp: save_model_cases truthy_def split: option.splits)
next
  show "(SaveModel p \<in> set (save_model ex a)) = (truthy (model_dump a) \<and> model_dump a = Some p)"
    by (auto simp: save_model_cases truthy_def split: option.splits)
qed

lemma average_accuracy_example: "average_accuracy [0, 0] [0, 1] = Inr (Finite (1 / 2))"
  by (simp add: average_accuracy_def bincount_def broadcast_def upt_conv_Cons)

theorem export_failures_do_not_abort_witness:
  "evaluate_and_export
     \<lparr>save_weights = (\<lambda>path. Some ''Permission denied''),
      save = (\<lambda>path. None),
      dump_features = (\<lambda>path. None)\<rparr>
     \<lparr>class_list = None, embed_dim = 100, centroids = None, max_decay = 0, epochs = None,
      batch_size = 100, finetune = None, finetune_init = 3, sgd_lr = 1 / 10,
      model_dump = Some ''model.h5'', weight_dump = Some ''/weights.h5'', feature_dump = None\<rparr>
     \<lparr>num_classes = 2, num_train = 30, num_test = 2, labels_test = [0, 1]\<rparr>
     [1 / 2, 3 / 4] [0, 0]
   = ([PrintEvaluation [1 / 2, 3 / 4], PrintAverageAccuracy (Finite (1 / 2)),
       SaveWeights ''/weights.h5'',
       PrintText ''An error occurred while saving the model weights: Permission denied'',
       SaveModel ''model.h5''],
      None)"
  using export_failures_do_not_abort [where acc = "Finite (1 / 2)" and test_pred = "[0, 0]"
      and evaluation = "[1 / 2, 3 / 4]"
      and dg = "\<lparr>num_classes = 2, num_train = 30, num_test = 2, labels_test = [0, 1]\<rparr>"
      and ex = "\<lparr>save_weights = (\<lambda>path. Some ''Permission denied''),
      save = (\<lambda>path. None),
      dump_features = (\<lambda>path. None)\<rparr>"
      and a = "\<lparr>class_list = None, embed_dim = 100, centroids = None, max_decay = 0, epochs = None,
      batch_size = 100, finetune = None, finetune_init = 3, sgd_lr = 1 / 10,
      model_dump = Some ''model.h5'', weight_dump = Some ''/weights.h5'', feature_dump = None\<rparr>"]
    average_accuracy_example
  by (simp add: truthy_def save_model_def)

end
